theory Spec2Isabelle
  imports Main
begin

section \<open>Python strings\<close>

text \<open>
  A \<^typ>\<open>string\<close> stands for a Python \<^verbatim>\<open>str\<close> whose code points are below 256: a
  \<^typ>\<open>char\<close> is one code point. The predicates below are Python's, restricted to
  that range.
\<close>

definition isspace :: "char \<Rightarrow> bool" where
  \<comment> \<open>\<^verbatim>\<open>str.isspace\<close> on one character; also what \<^verbatim>\<open>\s\<close> matches in a \<^verbatim>\<open>str\<close> pattern.\<close>
  "isspace c \<longleftrightarrow>
     c \<in> set [CHR 0x09, CHR 0x0A, CHR 0x0B, CHR 0x0C, CHR 0x0D, CHR 0x1C, CHR 0x1D,
              CHR 0x1E, CHR 0x1F, CHR 0x20, CHR 0x85, CHR 0xA0]"

definition strip :: "string \<Rightarrow> string" where
  \<comment> \<open>\<^verbatim>\<open>s.strip()\<close>\<close>
  "strip s = rev (dropWhile isspace (rev (dropWhile isspace s)))"

definition is_linebreak :: "char \<Rightarrow> bool" where
  \<comment> \<open>the line boundaries of \<^verbatim>\<open>str.splitlines\<close>\<close>
  "is_linebreak c \<longleftrightarrow>
     c \<in> set [CHR 0x0A, CHR 0x0D, CHR 0x0B, CHR 0x0C, CHR 0x1C, CHR 0x1D, CHR 0x1E, CHR 0x85]"

fun splitlines_from :: "string \<Rightarrow> string \<Rightarrow> string list" where
  \<comment> \<open>\<open>cur\<close> is the line being read, reversed\<close>
  "splitlines_from cur [] = (if cur = [] then [] else [rev cur])"
| "splitlines_from cur [c] = (if is_linebreak c then [rev cur] else [rev (c # cur)])"
| "splitlines_from cur (c # d # cs) =
     (if c = CHR 0x0D \<and> d = CHR 0x0A then rev cur # splitlines_from [] cs
      else if is_linebreak c then rev cur # splitlines_from [] (d # cs)
      else splitlines_from (c # cur) (d # cs))"

definition splitlines :: "string \<Rightarrow> string list" where
  \<comment> \<open>\<^verbatim>\<open>s.splitlines()\<close>: the line breaks are dropped, \<^verbatim>\<open>\r\n\<close> is one break\<close>
  "splitlines s = splitlines_from [] s"

definition startswith :: "string \<Rightarrow> string \<Rightarrow> bool" where
  \<comment> \<open>\<^verbatim>\<open>s.startswith(p)\<close>\<close>
  "startswith s p \<longleftrightarrow> take (length p) s = p"

fun contains :: "string \<Rightarrow> string \<Rightarrow> bool" where
  \<comment> \<open>\<^verbatim>\<open>p in s\<close>\<close>
  "contains p [] = (p = [])"
| "contains p (c # cs) = (startswith (c # cs) p \<or> contains p cs)"

fun split_on :: "char \<Rightarrow> string \<Rightarrow> string list" where
  \<comment> \<open>\<^verbatim>\<open>s.split(sep)\<close> for a separator of one character\<close>
  "split_on sep [] = [[]]"
| "split_on sep (c # cs) =
     (if c = sep then [] # split_on sep cs
      else (case split_on sep cs of
              w # ws \<Rightarrow> (c # w) # ws
            | [] \<Rightarrow> [[c]]))"

fun join :: "string \<Rightarrow> string list \<Rightarrow> string" where
  \<comment> \<open>\<^verbatim>\<open>sep.join(xs)\<close>\<close>
  "join sep [] = []"
| "join sep [x] = x"
| "join sep (x # y # ys) = x @ sep @ join sep (y # ys)"

definition isdigit :: "string \<Rightarrow> bool" where
  \<comment> \<open>\<^verbatim>\<open>s.isdigit()\<close>: not empty, every character a digit (the superscripts one, two
      and three are digits for Python)\<close>
  "isdigit s \<longleftrightarrow>
     s \<noteq> [] \<and> list_all (\<lambda>c. c \<in> set (''0123456789'' @ [CHR 0xB2, CHR 0xB3, CHR 0xB9])) s"

definition digit_char :: "nat \<Rightarrow> char" where
  "digit_char d = ''0123456789'' ! d"

fun str_nat :: "nat \<Rightarrow> string" where
  \<comment> \<open>\<^verbatim>\<open>str(i)\<close> for a non-negative integer\<close>
  "str_nat n = (if n < 10 then [digit_char n] else str_nat (n div 10) @ [digit_char (n mod 10)])"

declare str_nat.simps [simp del]

section \<open>The operating system and the user, as the program meets them\<close>

text \<open>
  The exceptions are the subclasses of \<^verbatim>\<open>Exception\<close> that the calls of the program
  raise; each carries what \<^verbatim>\<open>str(e)\<close> prints. \<^verbatim>\<open>CalledProcessError\<close> also carries
  its \<^verbatim>\<open>stderr\<close> attribute as an f-string prints it.
\<close>

datatype py_exception =
    FileNotFoundError string
  | PermissionError string
  | OSError string
  | UnicodeDecodeError string
  | CalledProcessError string string
  | IndexError string
  | KeyError string
  | OtherException string

fun exc_str :: "py_exception \<Rightarrow> string" where
  "exc_str (FileNotFoundError m) = m"
| "exc_str (PermissionError m) = m"
| "exc_str (OSError m) = m"
| "exc_str (UnicodeDecodeError m) = m"
| "exc_str (CalledProcessError m err) = m"
| "exc_str (IndexError m) = m"
| "exc_str (KeyError m) = m"
| "exc_str (OtherException m) = m"

record completed_process =
  returncode :: int
  stdout :: string
  stderr :: string

datatype run_result = Completed completed_process | Raised py_exception

datatype file_read =
    OpenFails py_exception
  | Yields "string list" "py_exception option"

text \<open>
  \<open>'w\<close> is the state of the machine outside the program. \<open>subprocess_run w argv input\<close> is
  \<^verbatim>\<open>subprocess.run(argv, input=input, capture_output=True, text=True)\<close>;
  \<open>check_output w argv\<close> is \<^verbatim>\<open>subprocess.check_output(argv).decode()\<close>, the text or the
  exception either call raises; \<open>open_text w path\<close> is \<^verbatim>\<open>open(path, 'r')\<close> read line by
  line: it fails, or yields lines (each with its line end) and then ends or fails.
\<close>

record 'w system =
  path_exists :: "'w \<Rightarrow> string \<Rightarrow> bool"
  open_text :: "'w \<Rightarrow> string \<Rightarrow> file_read"
  subprocess_run :: "'w \<Rightarrow> string list \<Rightarrow> string option \<Rightarrow> run_result \<times> 'w"
  check_output :: "'w \<Rightarrow> string list \<Rightarrow> (py_exception + string) \<times> 'w"

datatype log_level = INFO | ERROR

datatype box = Warning | Critical | Information | Question

text \<open>What a call does that an observer can see, in the order it happens.\<close>

datatype event =
    Logged log_level string
  | Ran "string list" "string option" run_result
  | Checked "string list" "py_exception + string"
  | Box box string string
  | Dialog string string

text \<open>
  An operation driven by the user returns, raises, or is still waiting for an answer
  when the answers it is given run out.
\<close>

datatype 'a outcome = Returns 'a | Raises py_exception | Awaiting

definition LF :: char where
  "LF = CHR 0x0A"

section \<open>Privileged executor\<close>

definition run_sudo_command ::
  "'w system \<Rightarrow> string list \<Rightarrow> string \<Rightarrow> 'w \<Rightarrow>
     (py_exception + bool \<times> string option) \<times> 'w \<times> event list" where
  \<comment> \<open>\<^verbatim>\<open>OS_Controller.py\<close>: the secret goes to \<^verbatim>\<open>sudo -S\<close> on standard input\<close>
  "run_sudo_command sys command_list password w =
     (let argv = [''sudo'', ''-S''] @ command_list;
          inp = Some (password @ [LF]);
          (r, w') = subprocess_run sys w argv inp
      in case r of
           Completed proc \<Rightarrow>
             if returncode proc \<noteq> 0 then
               let error_msg = ''Command failed: '' @ join '' '' command_list @ [LF]
                                 @ strip (stderr proc)
               in (Inr (False, Some error_msg), w', [Ran argv inp r, Logged ERROR error_msg])
             else
               (Inr (True, None), w',
                [Ran argv inp r, Logged INFO (''Successfully executed: '' @ join '' '' command_list)])
         | Raised e \<Rightarrow>
             (case e of
                CalledProcessError m err \<Rightarrow>
                  let error_msg = ''Sudo command failed: '' @ err
                  in (Inr (False, Some error_msg), w', [Ran argv inp r, Logged ERROR error_msg])
              | _ \<Rightarrow> (Inl e, w', [Ran argv inp r])))"

definition run_sudo_command_win ::
  "'w system \<Rightarrow> string list \<Rightarrow> string \<Rightarrow> 'w \<Rightarrow>
     (py_exception + bool \<times> string option) \<times> 'w \<times> event list" where
  \<comment> \<open>\<^verbatim>\<open>OS_Controller_Windows.py\<close>: \<^verbatim>\<open>runas\<close> is started with no \<^verbatim>\<open>input\<close>\<close>
  "run_sudo_command_win sys command_list password w =
     (let argv = [''runas'', ''/user:Administrator''] @ command_list;
          (r, w') = subprocess_run sys w argv None
      in case r of
           Completed proc \<Rightarrow>
             if returncode proc \<noteq> 0 then
               let error_msg = ''Command failed: '' @ join '' '' command_list @ [LF]
                                 @ strip (stderr proc)
               in (Inr (False, Some error_msg), w', [Ran argv None r, Logged ERROR error_msg])
             else
               (Inr (True, None), w',
                [Ran argv None r, Logged INFO (''Successfully executed: '' @ join '' '' command_list)])
         | Raised e \<Rightarrow>
             (case e of
                CalledProcessError m err \<Rightarrow>
                  let error_msg = ''Sudo command failed: '' @ err
                  in (Inr (False, Some error_msg), w', [Ran argv None r, Logged ERROR error_msg])
              | _ \<Rightarrow> (Inl e, w', [Ran argv None r])))"

section \<open>Entry source adapters\<close>

definition GRUB_CFG_PATH :: string where
  "GRUB_CFG_PATH = ''/boot/grub/grub.cfg''"

definition quote :: char where
  "quote = CHR 0x27"

definition menuentry_at :: "string \<Rightarrow> string option" where
  \<comment> \<open>the pattern \<^verbatim>\<open>menuentry '([^']+)'\<close> matched at the start of \<open>s\<close>: group 1\<close>
  "menuentry_at s =
     (if startswith s (''menuentry '' @ [quote]) then
        let r = drop 11 s;
            title = takeWhile (\<lambda>c. c \<noteq> quote) r
        in if title \<noteq> [] \<and> dropWhile (\<lambda>c. c \<noteq> quote) r \<noteq> [] then Some title else None
      else None)"

fun search_menuentry :: "string \<Rightarrow> string option" where
  \<comment> \<open>\<^verbatim>\<open>re.search\<close>: the leftmost position where the pattern matches\<close>
  "search_menuentry [] = menuentry_at []"
| "search_menuentry (c # cs) =
     (case menuentry_at (c # cs) of
        Some title \<Rightarrow> Some title
      | None \<Rightarrow> search_menuentry cs)"

fun file_lines_from :: "string \<Rightarrow> string \<Rightarrow> string list" where
  \<comment> \<open>the lines a text file yields: each ends with its line feed, and \<^verbatim>\<open>\r\<close> and
      \<^verbatim>\<open>\r\n\<close> are read as a line feed; \<open>cur\<close> is the line being read, reversed\<close>
  "file_lines_from cur [] = (if cur = [] then [] else [rev cur])"
| "file_lines_from cur [c] =
     (if c = LF \<or> c = CHR 0x0D then [rev (LF # cur)] else [rev (c # cur)])"
| "file_lines_from cur (c # d # cs) =
     (if c = CHR 0x0D \<and> d = LF then rev (LF # cur) # file_lines_from [] cs
      else if c = LF \<or> c = CHR 0x0D then rev (LF # cur) # file_lines_from [] (d # cs)
      else file_lines_from (c # cur) (d # cs))"

definition file_lines :: "string \<Rightarrow> string list" where
  "file_lines text = file_lines_from [] text"

definition get_grub_entries ::
  "'w system \<Rightarrow> 'w \<Rightarrow> (py_exception + string list) \<times> event list" where
  "get_grub_entries sys w =
     (case open_text sys w GRUB_CFG_PATH of
        OpenFails e \<Rightarrow> (Inr [], [Logged ERROR (''Error reading grub.cfg: '' @ exc_str e)])
      | Yields lines fault \<Rightarrow>
          (let entries = List.map_filter search_menuentry lines
           in case fault of
                None \<Rightarrow>
                  (Inr entries,
                   [Logged INFO (''Successfully fetched '' @ str_nat (length entries)
                                  @ '' GRUB entries.'')])
              | Some e \<Rightarrow>
                  (Inr entries, [Logged ERROR (''Error reading grub.cfg: '' @ exc_str e)])))"

definition is_hex :: "char \<Rightarrow> bool" where
  "is_hex c \<longleftrightarrow> c \<in> set ''0123456789ABCDEFabcdef''"

fun give_back :: "nat \<Rightarrow> string \<Rightarrow> string option" where
  \<comment> \<open>\<^verbatim>\<open>\s+(.+)\<close> on \<open>r\<close>, the white space taking at most \<open>j\<close> characters and as many as
      it can: group 2, which stops before a line feed\<close>
  "give_back 0 r = None"
| "give_back (Suc j) r =
     (case drop (Suc j) r of
        c # cs \<Rightarrow> if c \<noteq> LF then Some (takeWhile (\<lambda>x. x \<noteq> LF) (c # cs)) else give_back j r
      | [] \<Rightarrow> give_back j r)"

definition boot_at :: "string \<Rightarrow> (string \<times> string) option" where
  \<comment> \<open>the pattern \<^verbatim>\<open>Boot([0-9A-Fa-f]{4})\*?\s+(.+)\<close> matched at the start of \<open>s\<close>:
      groups 1 and 2\<close>
  "boot_at s =
     (if startswith s ''Boot'' then
        let bootnum = take 4 (drop 4 s);
            r = drop 8 s
        in if length bootnum = 4 \<and> list_all is_hex bootnum then
             let r' = (case r of c # cs \<Rightarrow> if c = CHR ''*'' then cs else r | [] \<Rightarrow> r)
             in map_option (\<lambda>g. (bootnum, g)) (give_back (length (takeWhile isspace r')) r')
           else None
      else None)"

fun search_boot :: "string \<Rightarrow> (string \<times> string) option" where
  "search_boot [] = boot_at []"
| "search_boot (c # cs) =
     (case boot_at (c # cs) of
        Some m \<Rightarrow> Some m
      | None \<Rightarrow> search_boot cs)"

definition uefi_line :: "string \<Rightarrow> (string \<times> string) option" where
  \<comment> \<open>one line of the listing: \<^verbatim>\<open>(match.group(1), match.group(2).strip())\<close>\<close>
  "uefi_line line = map_option (\<lambda>(bootnum, g). (bootnum, strip g)) (search_boot line)"

definition get_uefi_entries ::
  "'w system \<Rightarrow> 'w \<Rightarrow> (py_exception + (string \<times> string) list) \<times> 'w \<times> event list" where
  "get_uefi_entries sys w =
     (let argv = [''efibootmgr'', ''-v''];
          (r, w') = subprocess_run sys w argv None
      in case r of
           Completed proc \<Rightarrow>
             (let entries = List.map_filter uefi_line (splitlines (stdout proc))
              in (Inr entries, w',
                  [Ran argv None r,
                   Logged INFO (''Successfully fetched '' @ str_nat (length entries)
                                  @ '' UEFI entries.'')]))
         | Raised e \<Rightarrow>
             (case e of
                FileNotFoundError m \<Rightarrow>
                  (Inr [], w', [Ran argv None r, Logged ERROR ''efibootmgr not found.''])
              | _ \<Rightarrow>
                  (Inr [], w',
                   [Ran argv None r,
                    Logged ERROR (''Error reading UEFI boot entries: '' @ exc_str e)])))"

section \<open>Default resolver and preconditions\<close>

fun find_saved_entry :: "string list \<Rightarrow> py_exception + string option" where
  \<comment> \<open>the first line starting with \<^verbatim>\<open>saved_entry=\<close> gives \<^verbatim>\<open>line.split("=")[1]\<close>\<close>
  "find_saved_entry [] = Inr None"
| "find_saved_entry (line # lines) =
     (if startswith line ''saved_entry='' then
        (case split_on CHR ''='' line of
           _ # v # _ \<Rightarrow> Inr (Some v)
         | _ \<Rightarrow> Inl (IndexError ''list index out of range''))
      else find_saved_entry lines)"

definition get_default_entry ::
  "'w system \<Rightarrow> 'w \<Rightarrow> (py_exception + string option) \<times> 'w \<times> event list" where
  "get_default_entry sys w =
     (let argv = [''grub-editenv'', ''list''];
          (r, w') = subprocess_run sys w argv None
      in case r of
           Completed proc \<Rightarrow>
             (case find_saved_entry (splitlines (stdout proc)) of
                Inr (Some v) \<Rightarrow>
                  (Inr (Some v), w',
                   [Ran argv None r, Logged INFO (''Default GRUB entry found: '' @ v)])
              | Inr None \<Rightarrow> (Inr None, w', [Ran argv None r])
              | Inl e \<Rightarrow>
                  (Inr None, w',
                   [Ran argv None r,
                    Logged ERROR (''Could not read default GRUB entry: '' @ exc_str e)]))
         | Raised e \<Rightarrow>
             (Inr None, w',
              [Ran argv None r,
               Logged ERROR (''Could not read default GRUB entry: '' @ exc_str e)]))"

definition is_uefi_mode :: "'w system \<Rightarrow> 'w \<Rightarrow> bool" where
  "is_uefi_mode sys w = path_exists sys w ''/sys/firmware/efi''"

definition is_efivarfs_mounted :: "'w system \<Rightarrow> 'w \<Rightarrow> bool \<times> 'w \<times> event list" where
  "is_efivarfs_mounted sys w =
     (let (r, w') = check_output sys w [''mount'']
      in case r of
           Inr output \<Rightarrow>
             (contains ''efivarfs on /sys/firmware/efi/efivars'' output, w',
              [Checked [''mount''] r])
         | Inl e \<Rightarrow>
             (False, w',
              [Checked [''mount''] r,
               Logged ERROR (''Failed to check efivarfs mount: '' @ exc_str e)]))"

section \<open>Boot inventory\<close>

text \<open>
  \<open>entry_map\<close> is \<^verbatim>\<open>self.entry_map\<close>; \<open>items\<close> are the rows of the list widget, each the
  display text of \<^verbatim>\<open>all_entries\<close> with a flag that is true when the row got the default
  mark (the text appended to it, the green brush and the bold font).
\<close>

record ui =
  entry_map :: "string \<rightharpoonup> string"
  items :: "(string \<times> bool) list"

definition uefi_display :: "string \<times> string \<Rightarrow> string" where
  \<comment> \<open>\<^verbatim>\<open>f"{name} (Boot{bootnum})"\<close>\<close>
  "uefi_display = (\<lambda>(bootnum, name). name @ '' (Boot'' @ bootnum @ '')'')"

definition grub_display :: "nat \<times> string \<Rightarrow> string" where
  \<comment> \<open>\<^verbatim>\<open>f"{name} (GRUB{i})"\<close>\<close>
  "grub_display = (\<lambda>(i, name). name @ '' (GRUB'' @ str_nat i @ '')'')"

fun list_items ::
  "(string \<rightharpoonup> string) \<Rightarrow> string option \<Rightarrow> string list \<Rightarrow> py_exception + (string \<times> bool) list" where
  \<comment> \<open>the last loop of \<^verbatim>\<open>setup_ui\<close>: \<^verbatim>\<open>key = self.entry_map[entry]\<close>, marked when
      \<^verbatim>\<open>default_entry == key\<close>\<close>
  "list_items m default_entry [] = Inr []"
| "list_items m default_entry (entry # entries) =
     (case m entry of
        None \<Rightarrow> Inl (KeyError entry)
      | Some key \<Rightarrow>
          (case list_items m default_entry entries of
             Inl e \<Rightarrow> Inl e
           | Inr rows \<Rightarrow> Inr ((entry, default_entry = Some key) # rows)))"

definition uefi_map :: "(string \<rightharpoonup> string) \<Rightarrow> (string \<times> string) list \<Rightarrow> (string \<rightharpoonup> string)" where
  \<comment> \<open>\<^verbatim>\<open>self.entry_map[display] = bootnum\<close> for each entry of the firmware\<close>
  "uefi_map m uefi_entries =
     foldl (\<lambda>m e. m(uefi_display e \<mapsto> fst e)) m uefi_entries"

definition grub_map :: "(string \<rightharpoonup> string) \<Rightarrow> string list \<Rightarrow> (string \<rightharpoonup> string)" where
  \<comment> \<open>\<^verbatim>\<open>self.entry_map[display] = str(i)\<close> for \<^verbatim>\<open>i, name in enumerate(grub_entries)\<close>\<close>
  "grub_map m grub_entries =
     foldl (\<lambda>m e. m(grub_display e \<mapsto> str_nat (fst e))) m (List.enumerate 0 grub_entries)"

definition all_entries :: "(string \<times> string) list \<Rightarrow> string list \<Rightarrow> string list" where
  "all_entries uefi_entries grub_entries =
     map uefi_display uefi_entries @ map grub_display (List.enumerate 0 grub_entries)"

definition build_ui ::
  "(string \<times> string) list \<Rightarrow> string list \<Rightarrow> string option \<Rightarrow> py_exception + ui" where
  \<comment> \<open>lines 123 to 146 of \<^verbatim>\<open>setup_ui\<close>, from what the adapters and the resolver returned\<close>
  "build_ui uefi_entries grub_entries default_entry =
     (let m = grub_map (uefi_map Map.empty uefi_entries) grub_entries
      in case list_items m default_entry (all_entries uefi_entries grub_entries) of
           Inl e \<Rightarrow> Inl e
         | Inr rows \<Rightarrow> Inr \<lparr>entry_map = m, items = rows\<rparr>)"

definition setup_ui :: "'w system \<Rightarrow> 'w \<Rightarrow> (py_exception + ui) \<times> 'w \<times> event list" where
  "setup_ui sys w =
     (case get_grub_entries sys w of
        (Inl e, evs\<^sub>g) \<Rightarrow> (Inl e, w, evs\<^sub>g)
      | (Inr grub_entries, evs\<^sub>g) \<Rightarrow>
          (case get_uefi_entries sys w of
             (Inl e, w\<^sub>1, evs\<^sub>u) \<Rightarrow> (Inl e, w\<^sub>1, evs\<^sub>g @ evs\<^sub>u)
           | (Inr uefi_entries, w\<^sub>1, evs\<^sub>u) \<Rightarrow>
               (case get_default_entry sys w\<^sub>1 of
                  (Inl e, w\<^sub>2, evs\<^sub>d) \<Rightarrow> (Inl e, w\<^sub>2, evs\<^sub>g @ evs\<^sub>u @ evs\<^sub>d)
                | (Inr default_entry, w\<^sub>2, evs\<^sub>d) \<Rightarrow>
                    (build_ui uefi_entries grub_entries default_entry, w\<^sub>2,
                     evs\<^sub>g @ evs\<^sub>u @ evs\<^sub>d))))"

definition get_selected_index ::
  "(string \<rightharpoonup> string) \<Rightarrow> (string \<times> bool) option \<Rightarrow> string option \<times> event list" where
  \<comment> \<open>\<open>selected\<close> is the selected row, if any; removing the default mark from its text
      gives back the display text, which is stripped and looked up\<close>
  "get_selected_index m selected =
     (case selected of
        None \<Rightarrow> (None, [Box Warning ''No selection'' ''Please select an OS.''])
      | Some (text, marked) \<Rightarrow> (m (strip text), []))"

section \<open>Credential\<close>

definition truthy :: "string option \<Rightarrow> bool" where
  \<comment> \<open>the truth value of a value that is \<^verbatim>\<open>None\<close> or a \<^verbatim>\<open>str\<close>\<close>
  "truthy v = (case v of None \<Rightarrow> False | Some s \<Rightarrow> s \<noteq> [])"

definition fmt :: "string option \<Rightarrow> string" where
  \<comment> \<open>how an f-string prints a value that is \<^verbatim>\<open>None\<close> or a \<^verbatim>\<open>str\<close>\<close>
  "fmt v = (case v of None \<Rightarrow> ''None'' | Some s \<Rightarrow> s)"

type_synonym 'w executor =
  "string list \<Rightarrow> string \<Rightarrow> 'w \<Rightarrow> (py_exception + bool \<times> string option) \<times> 'w \<times> event list"

text \<open>
  The loop of \<^verbatim>\<open>prompt_for_password\<close>, the same in both files up to the executor it
  calls and the texts of the dialog. \<open>answers\<close> are the user's answers to the dialog, each
  the text entered and whether it was accepted; \<open>sudo_password\<close> is the global of that
  name, passed in and returned.
\<close>

fun prompt_loop ::
  "'w executor \<Rightarrow> string \<Rightarrow> string \<Rightarrow> (string \<times> bool) list \<Rightarrow> string option \<Rightarrow> 'w \<Rightarrow>
     string option outcome \<times> string option \<times> 'w \<times> event list" where
  "prompt_loop exec title label [] sudo_password w =
     (if truthy sudo_password then (Returns sudo_password, sudo_password, w, [])
      else (Awaiting, sudo_password, w, [Dialog title label]))"
| "prompt_loop exec title label ((password, ok) # answers) sudo_password w =
     (if truthy sudo_password then (Returns sudo_password, sudo_password, w, [])
      else if ok then
        (case exec [''echo'', ''verified''] password w of
           (Inl e, w', evs) \<Rightarrow> (Raises e, sudo_password, w', Dialog title label # evs)
         | (Inr (success, _), w', evs) \<Rightarrow>
             if success then (Returns (Some password), Some password, w', Dialog title label # evs)
             else
               (case prompt_loop exec title label answers sudo_password w' of
                  (res, cache, w'', evs') \<Rightarrow>
                    (res, cache, w'',
                     Dialog title label # evs
                       @ [Box Critical ''Authentication Failed'' ''Incorrect password. Try again.'']
                       @ evs')))
      else (Returns None, sudo_password, w, [Dialog title label]))"

definition prompt_for_password ::
  "'w system \<Rightarrow> (string \<times> bool) list \<Rightarrow> string option \<Rightarrow> 'w \<Rightarrow>
     string option outcome \<times> string option \<times> 'w \<times> event list" where
  "prompt_for_password sys =
     prompt_loop (run_sudo_command sys) ''Sudo Password Required'' ''Enter your sudo password:''"

definition prompt_for_password_win ::
  "'w system \<Rightarrow> (string \<times> bool) list \<Rightarrow> string option \<Rightarrow> 'w \<Rightarrow>
     string option outcome \<times> string option \<times> 'w \<times> event list" where
  "prompt_for_password_win sys =
     prompt_loop (run_sudo_command_win sys) ''Administrator Password Required''
       ''Enter your password:''"

section \<open>Mutation engine\<close>

definition set_next_boot ::
  "'w system \<Rightarrow> string \<Rightarrow> string \<Rightarrow> 'w \<Rightarrow> unit outcome \<times> 'w \<times> event list" where
  \<comment> \<open>lines 214 to 226 of \<^verbatim>\<open>reboot_selected\<close>\<close>
  "set_next_boot sys index password w =
     (case (if isdigit index then run_sudo_command sys [''efibootmgr'', ''-n'', index] password w
            else run_sudo_command sys [''efibootmgr'', ''-n'', index] password w) of
        (Inl e, w\<^sub>1, evs\<^sub>1) \<Rightarrow> (Raises e, w\<^sub>1, evs\<^sub>1)
      | (Inr (success, err), w\<^sub>1, evs\<^sub>1) \<Rightarrow>
          if success then
            (case run_sudo_command sys [''reboot''] password w\<^sub>1 of
               (Inl e, w\<^sub>2, evs\<^sub>2) \<Rightarrow> (Raises e, w\<^sub>2, evs\<^sub>1 @ evs\<^sub>2)
             | (Inr (success2, err2), w\<^sub>2, evs\<^sub>2) \<Rightarrow>
                 if success2 then
                   (Returns (), w\<^sub>2,
                    evs\<^sub>1 @ evs\<^sub>2 @ [Box Information ''Rebooting'' ''System is rebooting now...''])
                 else
                   (Returns (), w\<^sub>2,
                    evs\<^sub>1 @ evs\<^sub>2
                      @ [Box Critical ''Reboot Failed'' (''Failed to reboot.'' @ [LF] @ fmt err2)]))
          else
            (Returns (), w\<^sub>1,
             evs\<^sub>1 @ [Box Critical ''BootNext Failed''
                       (''Failed to set one-time boot.'' @ [LF] @ fmt err)]))"

definition reboot_selected ::
  "'w system \<Rightarrow> (string \<rightharpoonup> string) \<Rightarrow> (string \<times> bool) option \<Rightarrow> bool \<Rightarrow> (string \<times> bool) list \<Rightarrow>
     string option \<Rightarrow> 'w \<Rightarrow> unit outcome \<times> string option \<times> 'w \<times> event list" where
  \<comment> \<open>\<open>confirm\<close>: the user answers Yes to the question\<close>
  "reboot_selected sys m selected confirm answers sudo_password w =
     (case get_selected_index m selected of
        (index, evs\<^sub>0) \<Rightarrow>
          if \<not> truthy index then (Returns (), sudo_password, w, evs\<^sub>0)
          else if \<not> is_uefi_mode sys w then
            (Returns (), sudo_password, w,
             evs\<^sub>0 @ [Box Critical ''Error'' ''System is not in UEFI mode.''])
          else
            (case is_efivarfs_mounted sys w of
               (mounted, w\<^sub>1, evs\<^sub>1) \<Rightarrow>
                 if \<not> mounted then
                   (Returns (), sudo_password, w\<^sub>1,
                    evs\<^sub>0 @ evs\<^sub>1
                      @ [Box Critical ''Error''
                           ''EFI variables are not accessible. Ensure efivarfs is mounted.''])
                 else
                   (let ask = Box Question ''Confirm Reboot''
                                (''Reboot into entry '' @ fmt index @ ''?'')
                    in if \<not> confirm then (Returns (), sudo_password, w\<^sub>1, evs\<^sub>0 @ evs\<^sub>1 @ [ask])
                       else
                         (case prompt_for_password sys answers sudo_password w\<^sub>1 of
                            (Raises e, cache, w\<^sub>2, evs\<^sub>2) \<Rightarrow>
                              (Raises e, cache, w\<^sub>2, evs\<^sub>0 @ evs\<^sub>1 @ [ask] @ evs\<^sub>2)
                          | (Awaiting, cache, w\<^sub>2, evs\<^sub>2) \<Rightarrow>
                              (Awaiting, cache, w\<^sub>2, evs\<^sub>0 @ evs\<^sub>1 @ [ask] @ evs\<^sub>2)
                          | (Returns password, cache, w\<^sub>2, evs\<^sub>2) \<Rightarrow>
                              if \<not> truthy password then
                                (Returns (), cache, w\<^sub>2, evs\<^sub>0 @ evs\<^sub>1 @ [ask] @ evs\<^sub>2)
                              else
                                (case set_next_boot sys (the index) (the password) w\<^sub>2 of
                                   (res, w\<^sub>3, evs\<^sub>3) \<Rightarrow>
                                     (res, cache, w\<^sub>3, evs\<^sub>0 @ evs\<^sub>1 @ [ask] @ evs\<^sub>2 @ evs\<^sub>3))))))"

fun current_order :: "string list \<Rightarrow> py_exception + string list" where
  \<comment> \<open>the loop over the lines of \<^verbatim>\<open>efibootmgr\<close>: empty unless a line starts with
      \<^verbatim>\<open>BootOrder:\<close>, the first such line giving
      \<^verbatim>\<open>line.split(":")[1].strip().split(",")\<close>\<close>
  "current_order [] = Inr []"
| "current_order (line # lines) =
     (if startswith line ''BootOrder:'' then
        (case split_on CHR '':'' line of
           _ # v # _ \<Rightarrow> Inr (split_on CHR '','' (strip v))
         | _ \<Rightarrow> Inl (IndexError ''list index out of range''))
      else current_order lines)"

definition new_order :: "string \<Rightarrow> string list \<Rightarrow> string list" where
  \<comment> \<open>\<^verbatim>\<open>new_order = [index] + [x for x in current_order if x != index]\<close>\<close>
  "new_order index order = index # filter (\<lambda>x. x \<noteq> index) order"

definition write_default ::
  "'w system \<Rightarrow> string \<Rightarrow> string \<Rightarrow> 'w \<Rightarrow> unit outcome \<times> 'w \<times> event list" where
  \<comment> \<open>lines 237 to 257 of \<^verbatim>\<open>set_default_os\<close>\<close>
  "write_default sys index password w =
     (if isdigit index then
        (case run_sudo_command sys [''grub-set-default'', index] password w of
           (Inl e, w\<^sub>1, evs\<^sub>1) \<Rightarrow> (Raises e, w\<^sub>1, evs\<^sub>1)
         | (Inr (success, err), w\<^sub>1, evs\<^sub>1) \<Rightarrow>
             if success then
               (Returns (), w\<^sub>1,
                evs\<^sub>1 @ [Box Information ''Success'' (''Set GRUB entry #'' @ index @ '' as default.'')])
             else
               (Returns (), w\<^sub>1,
                evs\<^sub>1 @ [Box Critical ''Error'' (''Failed to set GRUB default.'' @ [LF] @ fmt err)]))
      else
        (case subprocess_run sys w [''efibootmgr''] None of
           (Raised e, w\<^sub>1) \<Rightarrow> (Raises e, w\<^sub>1, [Ran [''efibootmgr''] None (Raised e)])
         | (Completed result, w\<^sub>1) \<Rightarrow>
             (let evs\<^sub>1 = [Ran [''efibootmgr''] None (Completed result)]
              in case current_order (splitlines (stdout result)) of
                   Inl e \<Rightarrow> (Raises e, w\<^sub>1, evs\<^sub>1)
                 | Inr order \<Rightarrow>
                     (case run_sudo_command sys
                             ([''efibootmgr'', ''--bootorder''] @ new_order index order)
                             password w\<^sub>1 of
                        (Inl e, w\<^sub>2, evs\<^sub>2) \<Rightarrow> (Raises e, w\<^sub>2, evs\<^sub>1 @ evs\<^sub>2)
                      | (Inr (success, err), w\<^sub>2, evs\<^sub>2) \<Rightarrow>
                          if success then
                            (Returns (), w\<^sub>2,
                             evs\<^sub>1 @ evs\<^sub>2
                               @ [Box Information ''Success''
                                    (''Set Boot'' @ index @ '' as default UEFI boot option.'')])
                          else
                            (Returns (), w\<^sub>2,
                             evs\<^sub>1 @ evs\<^sub>2
                               @ [Box Critical ''Error''
                                    (''Failed to set UEFI boot order.'' @ [LF] @ fmt err)])))))"

definition set_default_os ::
  "'w system \<Rightarrow> (string \<rightharpoonup> string) \<Rightarrow> (string \<times> bool) option \<Rightarrow> (string \<times> bool) list \<Rightarrow>
     string option \<Rightarrow> 'w \<Rightarrow> unit outcome \<times> string option \<times> 'w \<times> event list" where
  "set_default_os sys m selected answers sudo_password w =
     (case get_selected_index m selected of
        (index, evs\<^sub>0) \<Rightarrow>
          if \<not> truthy index then (Returns (), sudo_password, w, evs\<^sub>0)
          else
            (case prompt_for_password sys answers sudo_password w of
               (Raises e, cache, w\<^sub>1, evs\<^sub>1) \<Rightarrow> (Raises e, cache, w\<^sub>1, evs\<^sub>0 @ evs\<^sub>1)
             | (Awaiting, cache, w\<^sub>1, evs\<^sub>1) \<Rightarrow> (Awaiting, cache, w\<^sub>1, evs\<^sub>0 @ evs\<^sub>1)
             | (Returns password, cache, w\<^sub>1, evs\<^sub>1) \<Rightarrow>
                 if \<not> truthy password then (Returns (), cache, w\<^sub>1, evs\<^sub>0 @ evs\<^sub>1)
                 else
                   (case write_default sys (the index) (the password) w\<^sub>1 of
                      (res, w\<^sub>2, evs\<^sub>2) \<Rightarrow> (res, cache, w\<^sub>2, evs\<^sub>0 @ evs\<^sub>1 @ evs\<^sub>2))))"

section \<open>Machines to run the program on\<close>

definition exits :: "int \<Rightarrow> string \<Rightarrow> string \<Rightarrow> run_result" where
  "exits rc out err = Completed \<lparr>returncode = rc, stdout = out, stderr = err\<rparr>"

definition stateless ::
  "bool \<Rightarrow> file_read \<Rightarrow> py_exception + string \<Rightarrow> (string list \<Rightarrow> string option \<Rightarrow> run_result) \<Rightarrow>
     unit system" where
  \<comment> \<open>a machine whose answers do not change: whether the firmware directory exists, what
      reading \<^verbatim>\<open>grub.cfg\<close> gives, what \<^verbatim>\<open>mount\<close> prints, what each process does\<close>
  "stateless efi cfg mounts run =
     \<lparr>path_exists = (\<lambda>w p. p = ''/sys/firmware/efi'' \<and> efi),
      open_text = (\<lambda>w p. if p = GRUB_CFG_PATH then cfg else OpenFails (FileNotFoundError p)),
      subprocess_run = (\<lambda>w argv inp. (run argv inp, w)),
      check_output = (\<lambda>w argv. (mounts, w))\<rparr>"

definition firmware_listing :: string where
  "firmware_listing =
     ''BootCurrent: 0001'' @ [LF] @ ''BootOrder: 0001,0000,000A,0002'' @ [LF]
       @ ''Boot0000* Windows Boot Manager'' @ [LF] @ ''Boot0001* ubuntu'' @ [LF]
       @ ''Boot0002  USB'' @ [LF] @ ''Boot000A* Network'' @ [LF]"

definition reads_order :: "unit system" where
  \<comment> \<open>the firmware tool prints its listing, every other process exits with 0\<close>
  "reads_order =
     stateless True (Yields [] None) (Inr [])
       (\<lambda>argv inp. if argv = [''efibootmgr''] then exits 0 firmware_listing [] else exits 0 [] [])"

definition no_sudo :: "unit system" where
  \<comment> \<open>no program can be started: the elevation binary is not installed\<close>
  "no_sudo =
     stateless True (Yields [] None) (Inr [])
       (\<lambda>argv inp. Raised (FileNotFoundError ''[Errno 2] No such file or directory: sudo''))"

definition read_fails :: "unit system" where
  \<comment> \<open>the firmware tool fails and prints nothing, every other process exits with 0\<close>
  "read_fails =
     stateless True (Yields [] None) (Inr [])
       (\<lambda>argv inp. if argv = [''efibootmgr'']
                    then exits 2 [] ''EFI variables are not supported on this system.''
                    else exits 0 [] [])"

definition sudo_checks :: "unit system" where
  \<comment> \<open>\<^verbatim>\<open>sudo -S\<close> accepts one secret and rejects every other\<close>
  "sudo_checks =
     stateless True (Yields [] None) (Inr [])
       (\<lambda>argv inp. if take 2 argv = [''sudo'', ''-S''] \<and> inp \<noteq> Some (''secret'' @ [LF])
                    then exits 1 [] (''Sorry, try again.'' @ [LF]) else exits 0 [] [])"

definition second_try :: "nat system" where
  \<comment> \<open>the state counts the processes started: the first fails, the later ones succeed\<close>
  "second_try =
     \<lparr>path_exists = (\<lambda>w p. True),
      open_text = (\<lambda>w p. Yields [] None),
      subprocess_run =
        (\<lambda>w argv inp. (if w = 0 then exits 1 [] ''denied'' else exits 0 [] [], Suc w)),
      check_output = (\<lambda>w argv. (Inr [], w))\<rparr>"

definition mount_text :: string where
  "mount_text =
     ''sysfs on /sys type sysfs (rw)'' @ [LF]
       @ ''efivarfs on /sys/firmware/efi/efivars type efivarfs (rw,nosuid,nodev,noexec)'' @ [LF]"

definition uefi_machine :: "(string list \<Rightarrow> string option \<Rightarrow> run_result) \<Rightarrow> unit system" where
  \<comment> \<open>booted by the firmware, with its variables mounted\<close>
  "uefi_machine run = stateless True (Yields [] None) (Inr mount_text) run"

definition legacy_bios :: "unit system" where
  "legacy_bios = stateless False (Yields [] None) (Inr mount_text) (\<lambda>argv inp. exits 0 [] [])"

definition no_efivars :: "unit system" where
  "no_efivars =
     stateless True (Yields [] None) (Inr (''sysfs on /sys type sysfs (rw)'' @ [LF]))
       (\<lambda>argv inp. exits 0 [] [])"

definition reboot_denied :: "unit system" where
  "reboot_denied =
     uefi_machine
       (\<lambda>argv inp. if argv = [''sudo'', ''-S'', ''reboot'']
                    then exits 1 [] ''Failed to reboot: Access denied''
                    else exits 0 [] [])"

definition next_boot_denied :: "unit system" where
  "next_boot_denied =
     uefi_machine
       (\<lambda>argv inp. if argv = [''sudo'', ''-S'', ''efibootmgr'', ''-n'', ''000A'']
                    then exits 1 [] ''Could not set BootNext''
                    else exits 0 [] [])"

definition network_entry :: "string \<rightharpoonup> string" where
  \<comment> \<open>the \<^verbatim>\<open>entry_map\<close> of a list with the one entry \<^verbatim>\<open>Boot000A\<close>\<close>
  "network_entry = map_of [(''Network (Boot000A)'', ''000A'')]"

definition grub_cfg_text :: string where
  "grub_cfg_text =
     ''set default=0'' @ [LF]
       @ ''menuentry '' @ [quote] @ ''Ubuntu'' @ [quote] @ '' --class ubuntu {'' @ [LF]
       @ ''  linux /vmlinuz'' @ [LF]
       @ ''}'' @ [LF]
       @ ''submenu '' @ [quote] @ ''Advanced options'' @ [quote] @ '' {'' @ [LF]
       @ ''  menuentry '' @ [quote] @ ''Ubuntu, with Linux 6.1'' @ [quote] @ '' {'' @ [LF]
       @ ''  }'' @ [LF]
       @ ''}'' @ [LF]
       @ ''menuentry '' @ [quote] @ ''Windows Boot Manager'' @ [quote] @ '' {'' @ [LF]
       @ ''}'' @ [LF]"

definition grub_machine :: "unit system" where
  \<comment> \<open>a machine with a \<^verbatim>\<open>grub.cfg\<close> of three menu entries and no firmware tool\<close>
  "grub_machine =
     stateless False (Yields (file_lines grub_cfg_text) None) (Inr [])
       (\<lambda>argv inp. Raised (FileNotFoundError ''[Errno 2] No such file or directory''))"

definition no_grub_cfg :: "unit system" where
  \<comment> \<open>neither the configuration file nor the firmware tool is there\<close>
  "no_grub_cfg =
     stateless False
       (OpenFails (FileNotFoundError ''[Errno 2] No such file or directory: /boot/grub/grub.cfg''))
       (Inr [])
       (\<lambda>argv inp. Raised (FileNotFoundError ''[Errno 2] No such file or directory: efibootmgr''))"

definition half_read :: "unit system" where
  \<comment> \<open>reading the configuration file fails after its second line; the firmware tool
      prints its listing and exits with 1\<close>
  "half_read =
     stateless True
       (Yields (take 2 (file_lines grub_cfg_text))
          (Some (UnicodeDecodeError ''utf-8 codec cannot decode byte 0xff'')))
       (Inr mount_text)
       (\<lambda>argv inp. if argv = [''efibootmgr'', ''-v''] then exits 1 firmware_listing ''failed''
                    else exits 0 [] [])"

definition nothing_to_list :: "unit system" where
  \<comment> \<open>a configuration file and a listing in which no line matches\<close>
  "nothing_to_list =
     stateless True (Yields (file_lines (''# empty config'' @ [LF])) None) (Inr mount_text)
       (\<lambda>argv inp. exits 0 (''BootCurrent: 0001'' @ [LF] @ ''Timeout: 1 seconds'' @ [LF]) [])"

definition conflated :: "unit system" where
  \<comment> \<open>the firmware lists \<^verbatim>\<open>Boot0001\<close> twice, and the saved entry of GRUB reads \<^verbatim>\<open>0000\<close>\<close>
  "conflated =
     stateless True (Yields (take 2 (file_lines grub_cfg_text)) None) (Inr mount_text)
       (\<lambda>argv inp.
          if argv = [''efibootmgr'', ''-v''] then
            exits 0 (''Boot0000* Windows Boot Manager'' @ [LF] @ ''Boot0001* ubuntu'' @ [LF]
                       @ ''Boot0001* ubuntu'' @ [LF]) []
          else if argv = [''grub-editenv'', ''list''] then exits 0 (''saved_entry=0000'' @ [LF]) []
          else exits 0 [] [])"

definition rows_of :: "py_exception + ui \<Rightarrow> (string \<times> bool) list" where
  \<comment> \<open>the rows shown, none when building the list raised\<close>
  "rows_of r = (case r of Inl e \<Rightarrow> [] | Inr u \<Rightarrow> items u)"

definition dual_boot :: "unit system" where
  \<comment> \<open>three menu entries of GRUB, four entries of the firmware, saved entry \<^verbatim>\<open>0\<close>\<close>
  "dual_boot =
     stateless True (Yields (file_lines grub_cfg_text) None) (Inr mount_text)
       (\<lambda>argv inp.
          if argv = [''efibootmgr'', ''-v''] then exits 0 firmware_listing []
          else if argv = [''grub-editenv'', ''list''] then exits 0 (''saved_entry=0'' @ [LF]) []
          else exits 0 [] [])"

definition id_in :: "py_exception + ui \<Rightarrow> string \<Rightarrow> string option" where
  \<comment> \<open>the id kept under a display text, none when building the list raised\<close>
  "id_in r display = (case r of Inl e \<Rightarrow> None | Inr u \<Rightarrow> entry_map u display)"

section \<open>Facts about the helpers\<close>

lemmas py_defs =
  startswith_def strip_def isspace_def splitlines_def is_linebreak_def isdigit_def LF_def
  quote_def is_hex_def truthy_def fmt_def

lemmas machine_defs =
  stateless_def exits_def firmware_listing_def reads_order_def no_sudo_def read_fails_def
  sudo_checks_def second_try_def mount_text_def uefi_machine_def legacy_bios_def no_efivars_def
  reboot_denied_def next_boot_denied_def network_entry_def grub_cfg_text_def grub_machine_def
  no_grub_cfg_def half_read_def nothing_to_list_def conflated_def dual_boot_def

lemmas run_defs =
  prompt_for_password_def prompt_for_password_win_def run_sudo_command_def
  run_sudo_command_win_def machine_defs py_defs Let_def

lemma run_sudo_command_first:
  "\<exists>res w' r logs. run_sudo_command sys cmd pw w =
      (res, w', Ran ([''sudo'', ''-S''] @ cmd) (Some (pw @ [LF])) r # logs)
    \<and> (\<forall>e \<in> set logs. \<exists>l t. e = Logged l t)"
  by (auto simp: run_sudo_command_def Let_def
           split: prod.splits run_result.splits py_exception.splits)

lemma run_sudo_command_win_first:
  "\<exists>res w' r logs. run_sudo_command_win sys cmd pw w =
      (res, w', Ran ([''runas'', ''/user:Administrator''] @ cmd) None r # logs)
    \<and> (\<forall>e \<in> set logs. \<exists>l t. e = Logged l t)"
  by (auto simp: run_sudo_command_win_def Let_def
           split: prod.splits run_result.splits py_exception.splits)

section \<open>Setting the default entry of the firmware\<close>









text \<open>
  C1 fails on the code. On a machine where the firmware tool exits with an error and prints
  no \<^verbatim>\<open>BootOrder:\<close> line, \<^verbatim>\<open>set_default_os\<close> for the entry \<^verbatim>\<open>000A\<close> does not stop: it
  writes the order made of the selected id alone and reports success.
\<close>

theorem set_default_writes_after_failed_read:
  "set_default_os read_fails (map_of [(''Network (Boot000A)'', ''000A'')])
      (Some (''Network (Boot000A)'', False)) [] (Some ''secret'') ()
   = (Returns (), Some ''secret'', (),
      [Ran [''efibootmgr''] None (exits 2 [] ''EFI variables are not supported on this system.''),
       Ran [''sudo'', ''-S'', ''efibootmgr'', ''--bootorder'', ''000A''] (Some (''secret'' @ [LF]))
         (exits 0 [] []),
       Logged INFO ''Successfully executed: efibootmgr --bootorder 000A'',
       Box Information ''Success'' ''Set Boot000A as default UEFI boot option.''])"
  by (simp add: set_default_os_def get_selected_index_def prompt_for_password_def
        write_default_def run_sudo_command_def new_order_def machine_defs py_defs)

section \<open>The privileged executor\<close>

text \<open>
  C2 fails on the code. Where \<^verbatim>\<open>sudo\<close> (or \<^verbatim>\<open>runas\<close>) cannot be started,
  \<^verbatim>\<open>subprocess.run\<close> raises \<^verbatim>\<open>FileNotFoundError\<close>; the handler of \<^verbatim>\<open>run_sudo_command\<close>
  catches \<^verbatim>\<open>CalledProcessError\<close> only, so the exception leaves the function and no result
  is returned.
\<close>

theorem run_sudo_command_raises_when_spawn_fails:
  "run_sudo_command no_sudo [''echo'', ''verified''] ''secret'' ()
     = (Inl (FileNotFoundError ''[Errno 2] No such file or directory: sudo''), (),
        [Ran [''sudo'', ''-S'', ''echo'', ''verified''] (Some (''secret'' @ [LF]))
           (Raised (FileNotFoundError ''[Errno 2] No such file or directory: sudo''))])
   \<and> run_sudo_command_win no_sudo [''echo'', ''verified''] ''secret'' ()
     = (Inl (FileNotFoundError ''[Errno 2] No such file or directory: sudo''), (),
        [Ran [''runas'', ''/user:Administrator'', ''echo'', ''verified''] None
           (Raised (FileNotFoundError ''[Errno 2] No such file or directory: sudo''))])"
  by (simp add: run_sudo_command_def run_sudo_command_win_def machine_defs)

section \<open>The credential\<close>

lemma prompt_loop_cached:
  "truthy cache \<Longrightarrow> prompt_loop exec t l answers cache w = (Returns cache, cache, w, [])"
  by (cases answers) auto

lemma prompt_loop_rejected:
  assumes "\<not> truthy cache"
    and "exec [''echo'', ''verified''] pw w = (Inr (False, err), w\<^sub>1, evs\<^sub>1)"
    and "prompt_loop exec t l answers cache w\<^sub>1 = (res, cache', w\<^sub>2, evs\<^sub>2)"
  shows "prompt_loop exec t l ((pw, True) # answers) cache w =
           (res, cache', w\<^sub>2,
            Dialog t l # evs\<^sub>1
              @ [Box Critical ''Authentication Failed'' ''Incorrect password. Try again.'']
              @ evs\<^sub>2)"
  using assms by simp

lemma prompt_loop_starts_with_dialog:
  "\<not> truthy cache \<Longrightarrow> prompt_loop exec t l answers cache w = (res, cache', w', evs)
     \<Longrightarrow> \<exists>rest. evs = Dialog t l # rest"
  by (cases answers) (auto split: if_splits prod.splits sum.splits)

lemma prompt_loop_cache:
  "prompt_loop exec t l answers cache w = (res, cache', w', evs) \<Longrightarrow> cache' \<noteq> cache \<Longrightarrow>
     \<exists>pw w\<^sub>0 err evs\<^sub>1 pre. cache' = Some pw \<and> res = Returns (Some pw) \<and> (pw, True) \<in> set answers
        \<and> exec [''echo'', ''verified''] pw w\<^sub>0 = (Inr (True, err), w', evs\<^sub>1)
        \<and> evs = pre @ Dialog t l # evs\<^sub>1"
proof (induction answers arbitrary: w res cache' w' evs)
  case Nil
  then show ?case by (auto split: if_splits)
next
  case (Cons a answers)
  obtain password ok where a: "a = (password, ok)" by (cases a)
  show ?case
  proof (cases "truthy cache \<or> \<not> ok")
    case True
    with Cons.prems a show ?thesis by (auto split: if_splits)
  next
    case False
    then have nt: "\<not> truthy cache" and ok: ok by auto
    obtain r w\<^sub>1 evs\<^sub>1 where e: "exec [''echo'', ''verified''] password w = (r, w\<^sub>1, evs\<^sub>1)"
      by (cases "exec [''echo'', ''verified''] password w") auto
    show ?thesis
    proof (cases r)
      case (Inl x)
      with Cons.prems a nt ok e show ?thesis by auto
    next
      case (Inr b)
      obtain success err where b: "b = (success, err)" by (cases b)
      show ?thesis
      proof (cases success)
        case True
        with Cons.prems a nt ok e Inr b have
          "cache' = Some password" "res = Returns (Some password)" "w' = w\<^sub>1"
          "evs = [] @ Dialog t l # evs\<^sub>1"
          by auto
        with e Inr b True a ok show ?thesis by fastforce
      next
        case False
        obtain res2 c2 w2 evs2 where
          rec: "prompt_loop exec t l answers cache w\<^sub>1 = (res2, c2, w2, evs2)"
          by (cases "prompt_loop exec t l answers cache w\<^sub>1") auto
        with Cons.prems a nt ok e Inr b False have
          eq: "res = res2" "cache' = c2" "w' = w2"
            "evs = Dialog t l # evs\<^sub>1
               @ [Box Critical ''Authentication Failed'' ''Incorrect password. Try again.''] @ evs2"
          by auto
        from Cons.IH [OF rec] Cons.prems(2) eq obtain pw w\<^sub>0 err' evs' pre where
          "c2 = Some pw" "res2 = Returns (Some pw)" "(pw, True) \<in> set answers"
          "exec [''echo'', ''verified''] pw w\<^sub>0 = (Inr (True, err'), w2, evs')"
          "evs2 = pre @ Dialog t l # evs'"
          by auto
        with eq show ?thesis
          by (intro exI [of _ pw] exI [of _ w\<^sub>0] exI [of _ err'] exI [of _ evs']
                exI [of _ "Dialog t l # evs\<^sub>1
               @ [Box Critical ''Authentication Failed'' ''Incorrect password. Try again.''] @ pre"])
             auto
      qed
    qed
  qed
qed

lemma prompt_loop_runs:
  assumes exec: "\<And>cmd p w. \<exists>res w' r logs. exec cmd p w = (res, w', Ran (argv cmd) (inp p) r # logs)
                    \<and> (\<forall>e \<in> set logs. \<exists>l t. e = Logged l t)"
  shows "prompt_loop exec t l answers cache w = (res, cache', w', evs) \<Longrightarrow>
         Ran a i r \<in> set evs \<Longrightarrow>
         a = argv [''echo'', ''verified''] \<and> (\<exists>p. (p, True) \<in> set answers \<and> i = inp p)"
proof (induction answers arbitrary: w res cache' w' evs)
  case Nil
  then show ?case by (auto split: if_splits)
next
  case (Cons x answers)
  obtain password ok where x: "x = (password, ok)" by (cases x)
  obtain r\<^sub>1 w\<^sub>1 r' logs where
    e: "exec [''echo'', ''verified''] password w
          = (r\<^sub>1, w\<^sub>1, Ran (argv [''echo'', ''verified'']) (inp password) r' # logs)"
    and logs: "\<forall>e \<in> set logs. \<exists>l t. e = Logged l t"
    using exec [of "[''echo'', ''verified'']" password w] by auto
  obtain res2 c2 w2 evs2 where
    rec: "prompt_loop exec t l answers cache w\<^sub>1 = (res2, c2, w2, evs2)"
    by (cases "prompt_loop exec t l answers cache w\<^sub>1") auto
  have nolog: "Ran a i r \<notin> set logs"
    using logs by auto
  have "Ran a i r \<in> set evs2 \<or> (a = argv [''echo'', ''verified''] \<and> i = inp password \<and> ok)"
    using Cons.prems x e nolog rec
    by (auto split: if_splits sum.splits)
  then show ?case
    using Cons.IH [OF rec] x by auto
qed


text \<open>
  C4. In both files, the loop of \<^verbatim>\<open>prompt_for_password\<close> changes the cached credential
  only to a secret the user entered and whose \<^verbatim>\<open>echo verified\<close> run succeeded, and then
  returns it. In an iteration where the run for the entered secret fails, the secret is
  not cached: the loop goes on from the unchanged cache, its next act is the dialog, and
  every process it starts afterwards is the validation of a secret the user enters then.
\<close>

theorem credential_cached_only_after_validation:
  "(prompt_for_password sys answers cache w = (res, cache', w', evs) \<longrightarrow> cache' \<noteq> cache \<longrightarrow>
      (\<exists>pw w\<^sub>0 err evs\<^sub>1 pre.
          cache' = Some pw \<and> res = Returns (Some pw) \<and> (pw, True) \<in> set answers
        \<and> run_sudo_command sys [''echo'', ''verified''] pw w\<^sub>0 = (Inr (True, err), w', evs\<^sub>1)
        \<and> evs = pre @ Dialog ''Sudo Password Required'' ''Enter your sudo password:'' # evs\<^sub>1))
   \<and> (\<not> truthy cache \<longrightarrow>
        run_sudo_command sys [''echo'', ''verified''] rejected w = (Inr (False, err), w\<^sub>1, evs\<^sub>1) \<longrightarrow>
        prompt_for_password sys answers cache w\<^sub>1 = (res\<^sub>2, cache\<^sub>2, w\<^sub>2, evs\<^sub>2) \<longrightarrow>
          prompt_for_password sys ((rejected, True) # answers) cache w
            = (res\<^sub>2, cache\<^sub>2, w\<^sub>2,
               Dialog ''Sudo Password Required'' ''Enter your sudo password:'' # evs\<^sub>1
                 @ [Box Critical ''Authentication Failed'' ''Incorrect password. Try again.'']
                 @ evs\<^sub>2)
        \<and> (\<exists>rest. evs\<^sub>2 = Dialog ''Sudo Password Required'' ''Enter your sudo password:'' # rest)
        \<and> (\<forall>a i r. Ran a i r \<in> set evs\<^sub>2 \<longrightarrow>
              a = [''sudo'', ''-S'', ''echo'', ''verified'']
            \<and> (\<exists>p. (p, True) \<in> set answers \<and> i = Some (p @ [LF]))))
   \<and> (prompt_for_password_win sys answers cache w = (res, cache', w', evs) \<longrightarrow> cache' \<noteq> cache \<longrightarrow>
      (\<exists>pw w\<^sub>0 err evs\<^sub>1 pre.
          cache' = Some pw \<and> res = Returns (Some pw) \<and> (pw, True) \<in> set answers
        \<and> run_sudo_command_win sys [''echo'', ''verified''] pw w\<^sub>0 = (Inr (True, err), w', evs\<^sub>1)
        \<and> evs = pre @ Dialog ''Administrator Password Required'' ''Enter your password:'' # evs\<^sub>1))
   \<and> (\<not> truthy cache \<longrightarrow>
        run_sudo_command_win sys [''echo'', ''verified''] rejected w = (Inr (False, err), w\<^sub>1, evs\<^sub>1) \<longrightarrow>
        prompt_for_password_win sys answers cache w\<^sub>1 = (res\<^sub>2, cache\<^sub>2, w\<^sub>2, evs\<^sub>2) \<longrightarrow>
          prompt_for_password_win sys ((rejected, True) # answers) cache w
            = (res\<^sub>2, cache\<^sub>2, w\<^sub>2,
               Dialog ''Administrator Password Required'' ''Enter your password:'' # evs\<^sub>1
                 @ [Box Critical ''Authentication Failed'' ''Incorrect password. Try again.'']
                 @ evs\<^sub>2)
        \<and> (\<exists>rest. evs\<^sub>2 = Dialog ''Administrator Password Required'' ''Enter your password:'' # rest)
        \<and> (\<forall>a i r. Ran a i r \<in> set evs\<^sub>2 \<longrightarrow>
              a = [''runas'', ''/user:Administrator'', ''echo'', ''verified''] \<and> i = None))"
proof -
  have linux: "\<And>cmd p w. \<exists>res w' r logs.
      run_sudo_command sys cmd p w = (res, w', Ran ([''sudo'', ''-S''] @ cmd) (Some (p @ [LF])) r # logs)
      \<and> (\<forall>e \<in> set logs. \<exists>l t. e = Logged l t)"
    using run_sudo_command_first [of sys] by simp
  have win: "\<And>cmd p w. \<exists>res w' r logs.
      run_sudo_command_win sys cmd p w
        = (res, w', Ran ([''runas'', ''/user:Administrator''] @ cmd) ((\<lambda>p. None) p) r # logs)
      \<and> (\<forall>e \<in> set logs. \<exists>l t. e = Logged l t)"
    using run_sudo_command_win_first [of sys] by simp
  have a: "prompt_for_password sys answers cache w = (res, cache', w', evs) \<longrightarrow> cache' \<noteq> cache \<longrightarrow>
      (\<exists>pw w\<^sub>0 err evs\<^sub>1 pre.
          cache' = Some pw \<and> res = Returns (Some pw) \<and> (pw, True) \<in> set answers
        \<and> run_sudo_command sys [''echo'', ''verified''] pw w\<^sub>0 = (Inr (True, err), w', evs\<^sub>1)
        \<and> evs = pre @ Dialog ''Sudo Password Required'' ''Enter your sudo password:'' # evs\<^sub>1)"
    unfolding prompt_for_password_def
    by (intro impI) (rule prompt_loop_cache [where exec = "run_sudo_command sys"], assumption+)
  have b: "prompt_for_password_win sys answers cache w = (res, cache', w', evs) \<longrightarrow> cache' \<noteq> cache \<longrightarrow>
      (\<exists>pw w\<^sub>0 err evs\<^sub>1 pre.
          cache' = Some pw \<and> res = Returns (Some pw) \<and> (pw, True) \<in> set answers
        \<and> run_sudo_command_win sys [''echo'', ''verified''] pw w\<^sub>0 = (Inr (True, err), w', evs\<^sub>1)
        \<and> evs = pre @ Dialog ''Administrator Password Required'' ''Enter your password:'' # evs\<^sub>1)"
    unfolding prompt_for_password_win_def
    by (intro impI) (rule prompt_loop_cache [where exec = "run_sudo_command_win sys"], assumption+)
  have c: "prompt_for_password sys ((rejected, True) # answers) cache w
            = (res\<^sub>2, cache\<^sub>2, w\<^sub>2,
               Dialog ''Sudo Password Required'' ''Enter your sudo password:'' # evs\<^sub>1
                 @ [Box Critical ''Authentication Failed'' ''Incorrect password. Try again.'']
                 @ evs\<^sub>2)
        \<and> (\<exists>rest. evs\<^sub>2 = Dialog ''Sudo Password Required'' ''Enter your sudo password:'' # rest)
        \<and> (\<forall>a i r. Ran a i r \<in> set evs\<^sub>2 \<longrightarrow>
              a = [''sudo'', ''-S'', ''echo'', ''verified'']
            \<and> (\<exists>p. (p, True) \<in> set answers \<and> i = Some (p @ [LF])))"
    if "\<not> truthy cache"
      and "run_sudo_command sys [''echo'', ''verified''] rejected w = (Inr (False, err), w\<^sub>1, evs\<^sub>1)"
      and "prompt_for_password sys answers cache w\<^sub>1 = (res\<^sub>2, cache\<^sub>2, w\<^sub>2, evs\<^sub>2)"
    using that prompt_loop_rejected [of cache "run_sudo_command sys" rejected w err w\<^sub>1 evs\<^sub>1]
      prompt_loop_starts_with_dialog [of cache "run_sudo_command sys"]
      prompt_loop_runs [of "run_sudo_command sys" "\<lambda>cmd. [''sudo'', ''-S''] @ cmd"
                           "\<lambda>p. Some (p @ [LF])", OF linux]
    unfolding prompt_for_password_def by (intro conjI allI impI) (blast, blast, fastforce+)
  have d: "prompt_for_password_win sys ((rejected, True) # answers) cache w
            = (res\<^sub>2, cache\<^sub>2, w\<^sub>2,
               Dialog ''Administrator Password Required'' ''Enter your password:'' # evs\<^sub>1
                 @ [Box Critical ''Authentication Failed'' ''Incorrect password. Try again.'']
                 @ evs\<^sub>2)
        \<and> (\<exists>rest. evs\<^sub>2 = Dialog ''Administrator Password Required'' ''Enter your password:'' # rest)
        \<and> (\<forall>a i r. Ran a i r \<in> set evs\<^sub>2 \<longrightarrow>
              a = [''runas'', ''/user:Administrator'', ''echo'', ''verified''] \<and> i = None)"
    if "\<not> truthy cache"
      and "run_sudo_command_win sys [''echo'', ''verified''] rejected w = (Inr (False, err), w\<^sub>1, evs\<^sub>1)"
      and "prompt_for_password_win sys answers cache w\<^sub>1 = (res\<^sub>2, cache\<^sub>2, w\<^sub>2, evs\<^sub>2)"
    using that prompt_loop_rejected [of cache "run_sudo_command_win sys" rejected w err w\<^sub>1 evs\<^sub>1]
      prompt_loop_starts_with_dialog [of cache "run_sudo_command_win sys"]
      prompt_loop_runs [of "run_sudo_command_win sys" "\<lambda>cmd. [''runas'', ''/user:Administrator''] @ cmd"
                           "\<lambda>p. None", OF win]
    unfolding prompt_for_password_win_def by (intro conjI allI impI) (blast, blast, fastforce+)
  show ?thesis
    using a b c d by blast
qed

theorem credential_cached_only_after_validation_witness:
  "prompt_for_password sudo_checks [(''secret'', True)] None ()
     = (Returns (Some ''secret''), Some ''secret'', (),
        [Dialog ''Sudo Password Required'' ''Enter your sudo password:'',
         Ran [''sudo'', ''-S'', ''echo'', ''verified''] (Some (''secret'' @ [LF])) (exits 0 [] []),
         Logged INFO ''Successfully executed: echo verified''])
   \<and> Some ''secret'' \<noteq> (None :: string option)
   \<and> \<not> truthy None
   \<and> run_sudo_command sudo_checks [''echo'', ''verified''] ''wrong'' ()
     = (Inr (False, Some (''Command failed: echo verified'' @ [LF] @ ''Sorry, try again.'')), (),
        [Ran [''sudo'', ''-S'', ''echo'', ''verified''] (Some (''wrong'' @ [LF]))
           (exits 1 [] (''Sorry, try again.'' @ [LF])),
         Logged ERROR (''Command failed: echo verified'' @ [LF] @ ''Sorry, try again.'')])
   \<and> prompt_for_password sudo_checks [(''wrong'', True), (''secret'', True)] None ()
     = (Returns (Some ''secret''), Some ''secret'', (),
        [Dialog ''Sudo Password Required'' ''Enter your sudo password:'',
         Ran [''sudo'', ''-S'', ''echo'', ''verified''] (Some (''wrong'' @ [LF]))
           (exits 1 [] (''Sorry, try again.'' @ [LF])),
         Logged ERROR (''Command failed: echo verified'' @ [LF] @ ''Sorry, try again.''),
         Box Critical ''Authentication Failed'' ''Incorrect password. Try again.'',
         Dialog ''Sudo Password Required'' ''Enter your sudo password:'',
         Ran [''sudo'', ''-S'', ''echo'', ''verified''] (Some (''secret'' @ [LF])) (exits 0 [] []),
         Logged INFO ''Successfully executed: echo verified''])
   \<and> prompt_for_password_win second_try [(''secret'', True)] None 1
     = (Returns (Some ''secret''), Some ''secret'', 2,
        [Dialog ''Administrator Password Required'' ''Enter your password:'',
         Ran [''runas'', ''/user:Administrator'', ''echo'', ''verified''] None (exits 0 [] []),
         Logged INFO ''Successfully executed: echo verified''])
   \<and> run_sudo_command_win second_try [''echo'', ''verified''] ''wrong'' 0
     = (Inr (False, Some (''Command failed: echo verified'' @ [LF] @ ''denied'')), 1,
        [Ran [''runas'', ''/user:Administrator'', ''echo'', ''verified''] None
           (exits 1 [] ''denied''),
         Logged ERROR (''Command failed: echo verified'' @ [LF] @ ''denied'')])
   \<and> prompt_for_password_win second_try [(''wrong'', True), (''secret'', True)] None 0
     = (Returns (Some ''secret''), Some ''secret'', 2,
        [Dialog ''Administrator Password Required'' ''Enter your password:'',
         Ran [''runas'', ''/user:Administrator'', ''echo'', ''verified''] None
           (exits 1 [] ''denied''),
         Logged ERROR (''Command failed: echo verified'' @ [LF] @ ''denied''),
         Box Critical ''Authentication Failed'' ''Incorrect password. Try again.'',
         Dialog ''Administrator Password Required'' ''Enter your password:'',
         Ran [''runas'', ''/user:Administrator'', ''echo'', ''verified''] None (exits 0 [] []),
         Logged INFO ''Successfully executed: echo verified''])"
proof -
  have h0: "prompt_for_password sudo_checks [(''secret'', True)] None ()
     = (Returns (Some ''secret''), Some ''secret'', (),
        [Dialog ''Sudo Password Required'' ''Enter your sudo password:'',
         Ran [''sudo'', ''-S'', ''echo'', ''verified''] (Some (''secret'' @ [LF])) (exits 0 [] []),
         Logged INFO ''Successfully executed: echo verified''])"
    by (simp add: run_defs)
  have h1: "Some ''secret'' \<noteq> (None :: string option)"
    by (simp add: run_defs)
  have h2: "\<not> truthy None"
    by (simp add: run_defs)
  have h3: "run_sudo_command sudo_checks [''echo'', ''verified''] ''wrong'' ()
     = (Inr (False, Some (''Command failed: echo verified'' @ [LF] @ ''Sorry, try again.'')), (),
        [Ran [''sudo'', ''-S'', ''echo'', ''verified''] (Some (''wrong'' @ [LF]))
           (exits 1 [] (''Sorry, try again.'' @ [LF])),
         Logged ERROR (''Command failed: echo verified'' @ [LF] @ ''Sorry, try again.'')])"
    by (simp add: run_defs)
  have h4: "prompt_for_password sudo_checks [(''wrong'', True), (''secret'', True)] None ()
     = (Returns (Some ''secret''), Some ''secret'', (),
        [Dialog ''Sudo Password Required'' ''Enter your sudo password:'',
         Ran [''sudo'', ''-S'', ''echo'', ''verified''] (Some (''wrong'' @ [LF]))
           (exits 1 [] (''Sorry, try again.'' @ [LF])),
         Logged ERROR (''Command failed: echo verified'' @ [LF] @ ''Sorry, try again.''),
         Box Critical ''Authentication Failed'' ''Incorrect password. Try again.'',
         Dialog ''Sudo Password Required'' ''Enter your sudo password:'',
         Ran [''sudo'', ''-S'', ''echo'', ''verified''] (Some (''secret'' @ [LF])) (exits 0 [] []),
         Logged INFO ''Successfully executed: echo verified''])"
    by (simp add: run_defs)
  have h5: "prompt_for_password_win second_try [(''secret'', True)] None 1
     = (Returns (Some ''secret''), Some ''secret'', 2,
        [Dialog ''Administrator Password Required'' ''Enter your password:'',
         Ran [''runas'', ''/user:Administrator'', ''echo'', ''verified''] None (exits 0 [] []),
         Logged INFO ''Successfully executed: echo verified''])"
    by (simp add: run_defs)
  have h6: "run_sudo_command_win second_try [''echo'', ''verified''] ''wrong'' 0
     = (Inr (False, Some (''Command failed: echo verified'' @ [LF] @ ''denied'')), 1,
        [Ran [''runas'', ''/user:Administrator'', ''echo'', ''verified''] None
           (exits 1 [] ''denied''),
         Logged ERROR (''Command failed: echo verified'' @ [LF] @ ''denied'')])"
    by (simp add: run_defs)
  have h7: "prompt_for_password_win second_try [(''wrong'', True), (''secret'', True)] None 0
     = (Returns (Some ''secret''), Some ''secret'', 2,
        [Dialog ''Administrator Password Required'' ''Enter your password:'',
         Ran [''runas'', ''/user:Administrator'', ''echo'', ''verified''] None
           (exits 1 [] ''denied''),
         Logged ERROR (''Command failed: echo verified'' @ [LF] @ ''denied''),
         Box Critical ''Authentication Failed'' ''Incorrect password. Try again.'',
         Dialog ''Administrator Password Required'' ''Enter your password:'',
         Ran [''runas'', ''/user:Administrator'', ''echo'', ''verified''] None (exits 0 [] []),
         Logged INFO ''Successfully executed: echo verified''])"
    by (simp add: run_defs)
  show ?thesis
    using credential_cached_only_after_validation
          [of sudo_checks "[(''secret'', True)]" None "()" "Returns (Some ''secret'')"
              "Some ''secret''" "()" _ "''wrong''" _ "()" _ "Returns (Some ''secret'')"
              "Some ''secret''" "()"]
        credential_cached_only_after_validation
          [of second_try "[(''secret'', True)]" None 1 "Returns (Some ''secret'')"
              "Some ''secret''" 2]
        credential_cached_only_after_validation
          [of second_try "[(''secret'', True)]" None 0 _ _ _ _ "''wrong''" _ 1 _
              "Returns (Some ''secret'')" "Some ''secret''" 2]
        h0 h1 h2 h3 h4 h5 h6 h7
    by blast
qed

text \<open>
  C5. In the Windows file the secret is no input of the process that is started: run from
  the same state of the machine, \<^verbatim>\<open>run_sudo_command\<close> gives the same result, the same
  next state and the same trace for any two passwords. So the validation in
  \<^verbatim>\<open>prompt_for_password\<close> accepts both entered secrets or neither, whatever they are.
\<close>

theorem windows_result_ignores_password:
  "run_sudo_command_win sys command_list password w
     = run_sudo_command_win sys command_list password' w
   \<and> (\<exists>res cache res' cache' w' evs.
          prompt_for_password_win sys ((password, True) # answers) None w = (res, cache, w', evs)
        \<and> prompt_for_password_win sys ((password', True) # answers) None w = (res', cache', w', evs)
        \<and> (res = Returns (Some password) \<and> cache = Some password
              \<and> res' = Returns (Some password') \<and> cache' = Some password'
            \<or> res' = res \<and> cache' = cache))"
proof -
  have same: "\<And>cmd. run_sudo_command_win sys cmd password w = run_sudo_command_win sys cmd password' w"
    by (simp add: run_sudo_command_win_def)
  obtain r w\<^sub>1 evs\<^sub>1 where
    e: "run_sudo_command_win sys [''echo'', ''verified''] password w = (r, w\<^sub>1, evs\<^sub>1)"
    by (cases "run_sudo_command_win sys [''echo'', ''verified''] password w") auto
  then have e': "run_sudo_command_win sys [''echo'', ''verified''] password' w = (r, w\<^sub>1, evs\<^sub>1)"
    using same by simp
  show ?thesis
    using same e e'
    by (cases r; cases "prompt_loop (run_sudo_command_win sys) ''Administrator Password Required''
             ''Enter your password:'' answers None w\<^sub>1")
       (auto simp: prompt_for_password_win_def truthy_def)
qed

section \<open>One-time boot and reboot\<close>

lemmas op_defs =
  reboot_selected_def set_next_boot_def get_selected_index_def is_uefi_mode_def
  is_efivarfs_mounted_def set_default_os_def write_default_def new_order_def

lemma get_selected_index_no_run:
  "get_selected_index m selected = (index, evs) \<Longrightarrow> Ran a i r \<notin> set evs"
  by (auto simp: get_selected_index_def split: option.splits)

lemma is_efivarfs_mounted_no_run:
  "is_efivarfs_mounted sys w = (mounted, w', evs) \<Longrightarrow> Ran a i r \<notin> set evs"
  by (auto simp: is_efivarfs_mounted_def split: prod.splits sum.splits)

lemma reboot_selected_not_uefi:
  assumes "get_selected_index m selected = (index, evs\<^sub>0)" and "truthy index"
    and "\<not> is_uefi_mode sys w"
  shows "reboot_selected sys m selected confirm answers cache w =
           (Returns (), cache, w, evs\<^sub>0 @ [Box Critical ''Error'' ''System is not in UEFI mode.''])"
  using assms by (simp add: reboot_selected_def)

lemma reboot_selected_not_mounted:
  assumes "get_selected_index m selected = (index, evs\<^sub>0)" and "truthy index"
    and "is_uefi_mode sys w" and "is_efivarfs_mounted sys w = (False, w\<^sub>1, evs\<^sub>1)"
  shows "reboot_selected sys m selected confirm answers cache w =
           (Returns (), cache, w\<^sub>1,
            evs\<^sub>0 @ evs\<^sub>1
              @ [Box Critical ''Error''
                   ''EFI variables are not accessible. Ensure efivarfs is mounted.''])"
  using assms by (simp add: reboot_selected_def)

lemma reboot_selected_run_needs_preconditions:
  assumes "reboot_selected sys m selected confirm answers cache w = (res, cache', w', evs)"
    and "Ran a i r \<in> set evs"
  shows "is_uefi_mode sys w \<and> fst (is_efivarfs_mounted sys w)"
proof -
  obtain index evs\<^sub>0 where s: "get_selected_index m selected = (index, evs\<^sub>0)"
    by (cases "get_selected_index m selected") auto
  obtain mounted w\<^sub>1 evs\<^sub>1 where mt: "is_efivarfs_mounted sys w = (mounted, w\<^sub>1, evs\<^sub>1)"
    by (cases "is_efivarfs_mounted sys w") auto
  have n0: "Ran a i r \<notin> set evs\<^sub>0" using s by (rule get_selected_index_no_run)
  have n1: "Ran a i r \<notin> set evs\<^sub>1" using mt by (rule is_efivarfs_mounted_no_run)
  have nt: "evs = evs\<^sub>0" if "\<not> truthy index"
    using that assms(1) s by (simp add: reboot_selected_def)
  have nu: "evs = evs\<^sub>0 @ [Box Critical ''Error'' ''System is not in UEFI mode.'']"
    if "truthy index" "\<not> is_uefi_mode sys w"
    using reboot_selected_not_uefi [OF s that, of confirm answers cache] assms(1) by simp
  have nm: "evs = evs\<^sub>0 @ evs\<^sub>1
              @ [Box Critical ''Error''
                   ''EFI variables are not accessible. Ensure efivarfs is mounted.'']"
    if "truthy index" "is_uefi_mode sys w" "\<not> mounted"
    using reboot_selected_not_mounted [OF s that(1,2), of w\<^sub>1 evs\<^sub>1 confirm answers cache]
      that(3) mt assms(1) by simp
  show ?thesis
  proof (rule ccontr)
    assume "\<not> (is_uefi_mode sys w \<and> fst (is_efivarfs_mounted sys w))"
    then consider "\<not> truthy index" | "truthy index" "\<not> is_uefi_mode sys w"
      | "truthy index" "is_uefi_mode sys w" "\<not> mounted"
      using mt by auto
    then have "Ran a i r \<notin> set evs"
    proof cases
      case 1
      then show ?thesis using nt n0 by simp
    next
      case 2
      then show ?thesis using nu n0 by simp
    next
      case 3
      then show ?thesis using nm n0 n1 by simp
    qed
    with assms(2) show False by simp
  qed
qed

text \<open>
  C6. With an entry selected, \<^verbatim>\<open>reboot_selected\<close> on a machine not started by the
  firmware stops with the message that the system is not in UEFI mode and nothing else;
  on a machine started by the firmware whose variables are not mounted it stops with the
  message that the EFI variables are not accessible, after the mount check alone. The two
  messages differ. Whatever the inputs, a trace of \<^verbatim>\<open>reboot_selected\<close> that holds a process
  started through \<^verbatim>\<open>subprocess.run\<close> (the privileged commands are the only ones) comes
  from a machine where both checks passed.
\<close>

theorem reboot_checks_preconditions_first:
  "(get_selected_index m selected = (index, evs\<^sub>0) \<longrightarrow> truthy index \<longrightarrow> \<not> is_uefi_mode sys w \<longrightarrow>
      reboot_selected sys m selected confirm answers cache w =
        (Returns (), cache, w, evs\<^sub>0 @ [Box Critical ''Error'' ''System is not in UEFI mode.'']))
   \<and> (get_selected_index m selected = (index, evs\<^sub>0) \<longrightarrow> truthy index \<longrightarrow> is_uefi_mode sys w \<longrightarrow>
      is_efivarfs_mounted sys w = (False, w\<^sub>1, evs\<^sub>1) \<longrightarrow>
      reboot_selected sys m selected confirm answers cache w =
        (Returns (), cache, w\<^sub>1,
         evs\<^sub>0 @ evs\<^sub>1
           @ [Box Critical ''Error''
                ''EFI variables are not accessible. Ensure efivarfs is mounted.'']))
   \<and> Box Critical ''Error'' ''System is not in UEFI mode.''
       \<noteq> Box Critical ''Error'' ''EFI variables are not accessible. Ensure efivarfs is mounted.''
   \<and> (reboot_selected sys m selected confirm answers cache w = (res, cache', w', evs) \<longrightarrow>
      (\<exists>a i r. Ran a i r \<in> set evs) \<longrightarrow>
      is_uefi_mode sys w \<and> fst (is_efivarfs_mounted sys w))"
proof (intro conjI impI)
  assume "get_selected_index m selected = (index, evs\<^sub>0)" "truthy index" "\<not> is_uefi_mode sys w"
  then show "reboot_selected sys m selected confirm answers cache w =
        (Returns (), cache, w, evs\<^sub>0 @ [Box Critical ''Error'' ''System is not in UEFI mode.''])"
    by (rule reboot_selected_not_uefi)
next
  assume "get_selected_index m selected = (index, evs\<^sub>0)" "truthy index" "is_uefi_mode sys w"
    "is_efivarfs_mounted sys w = (False, w\<^sub>1, evs\<^sub>1)"
  then show "reboot_selected sys m selected confirm answers cache w =
        (Returns (), cache, w\<^sub>1,
         evs\<^sub>0 @ evs\<^sub>1
           @ [Box Critical ''Error''
                ''EFI variables are not accessible. Ensure efivarfs is mounted.''])"
    by (rule reboot_selected_not_mounted)
next
  show "Box Critical ''Error'' ''System is not in UEFI mode.''
       \<noteq> Box Critical ''Error'' ''EFI variables are not accessible. Ensure efivarfs is mounted.''"
    by simp
next
  assume r: "reboot_selected sys m selected confirm answers cache w = (res, cache', w', evs)"
    and "\<exists>a i r. Ran a i r \<in> set evs"
  then obtain a i r where "Ran a i r \<in> set evs" by blast
  with r have "is_uefi_mode sys w \<and> fst (is_efivarfs_mounted sys w)"
    by (rule reboot_selected_run_needs_preconditions)
  then show "is_uefi_mode sys w" and "fst (is_efivarfs_mounted sys w)" by simp_all
qed

theorem reboot_checks_preconditions_first_witness:
  "get_selected_index network_entry (Some (''Network (Boot000A)'', False)) = (Some ''000A'', [])
   \<and> truthy (Some ''000A'')
   \<and> \<not> is_uefi_mode legacy_bios ()
   \<and> reboot_selected legacy_bios network_entry (Some (''Network (Boot000A)'', False)) True []
        (Some ''secret'') ()
       = (Returns (), Some ''secret'', (), [Box Critical ''Error'' ''System is not in UEFI mode.''])
   \<and> is_uefi_mode no_efivars ()
   \<and> is_efivarfs_mounted no_efivars ()
       = (False, (), [Checked [''mount''] (Inr (''sysfs on /sys type sysfs (rw)'' @ [LF]))])
   \<and> reboot_selected no_efivars network_entry (Some (''Network (Boot000A)'', False)) True []
        (Some ''secret'') ()
       = (Returns (), Some ''secret'', (),
          [Checked [''mount''] (Inr (''sysfs on /sys type sysfs (rw)'' @ [LF])),
           Box Critical ''Error''
             ''EFI variables are not accessible. Ensure efivarfs is mounted.''])
   \<and> reboot_selected reboot_denied network_entry (Some (''Network (Boot000A)'', False)) True []
        (Some ''secret'') ()
       = (Returns (), Some ''secret'', (),
          [Checked [''mount''] (Inr mount_text),
           Box Question ''Confirm Reboot'' ''Reboot into entry 000A?'',
           Ran [''sudo'', ''-S'', ''efibootmgr'', ''-n'', ''000A''] (Some (''secret'' @ [LF]))
             (exits 0 [] []),
           Logged INFO ''Successfully executed: efibootmgr -n 000A'',
           Ran [''sudo'', ''-S'', ''reboot''] (Some (''secret'' @ [LF]))
             (exits 1 [] ''Failed to reboot: Access denied''),
           Logged ERROR (''Command failed: reboot'' @ [LF] @ ''Failed to reboot: Access denied''),
           Box Critical ''Reboot Failed''
             (''Failed to reboot.'' @ [LF] @ ''Command failed: reboot'' @ [LF]
                @ ''Failed to reboot: Access denied'')])
   \<and> is_uefi_mode reboot_denied ()
   \<and> fst (is_efivarfs_mounted reboot_denied ())"
proof -
  let ?trace = "[Checked [''mount''] (Inr mount_text),
           Box Question ''Confirm Reboot'' ''Reboot into entry 000A?'',
           Ran [''sudo'', ''-S'', ''efibootmgr'', ''-n'', ''000A''] (Some (''secret'' @ [LF]))
             (exits 0 [] []),
           Logged INFO ''Successfully executed: efibootmgr -n 000A'',
           Ran [''sudo'', ''-S'', ''reboot''] (Some (''secret'' @ [LF]))
             (exits 1 [] ''Failed to reboot: Access denied''),
           Logged ERROR (''Command failed: reboot'' @ [LF] @ ''Failed to reboot: Access denied''),
           Box Critical ''Reboot Failed''
             (''Failed to reboot.'' @ [LF] @ ''Command failed: reboot'' @ [LF]
                @ ''Failed to reboot: Access denied'')]"
  have h0: "get_selected_index network_entry (Some (''Network (Boot000A)'', False)) = (Some ''000A'', [])"
    by (simp add: op_defs run_defs)
  have h1: "truthy (Some ''000A'')"
    by (simp add: truthy_def)
  have h2: "\<not> is_uefi_mode legacy_bios ()"
    by (simp add: op_defs run_defs)
  have h3: "is_uefi_mode no_efivars ()"
    by (simp add: op_defs run_defs)
  have h4: "is_efivarfs_mounted no_efivars ()
       = (False, (), [Checked [''mount''] (Inr (''sysfs on /sys type sysfs (rw)'' @ [LF]))])"
    by (simp add: op_defs run_defs)
  have h5: "reboot_selected reboot_denied network_entry (Some (''Network (Boot000A)'', False)) True []
        (Some ''secret'') ()
       = (Returns (), Some ''secret'', (),
          ?trace)"
    by (simp add: op_defs run_defs)
  have h6: "\<exists>a i r. Ran a i r \<in> set
          ?trace"
    by auto
  show ?thesis
    using reboot_checks_preconditions_first
            [where sys = legacy_bios and m = network_entry and index = "Some ''000A''"
               and selected = "Some (''Network (Boot000A)'', False)" and w = "()"
               and evs\<^sub>0 = "[]" and confirm = True and answers = "[]" and cache = "Some ''secret''"]
          reboot_checks_preconditions_first
            [where sys = no_efivars and m = network_entry and index = "Some ''000A''"
               and selected = "Some (''Network (Boot000A)'', False)" and w = "()"
               and evs\<^sub>0 = "[]" and confirm = True and answers = "[]" and cache = "Some ''secret''"
               and w\<^sub>1 = "()"
               and evs\<^sub>1 = "[Checked [''mount''] (Inr (''sysfs on /sys type sysfs (rw)'' @ [LF]))]"]
          reboot_checks_preconditions_first
            [where sys = reboot_denied and m = network_entry
               and selected = "Some (''Network (Boot000A)'', False)" and w = "()"
               and confirm = True and answers = "[]" and cache = "Some ''secret''"
               and res = "Returns ()" and cache' = "Some ''secret''" and w' = "()"
               and evs = ?trace]
          h0 h1 h2 h3 h4 h5 h6
    by simp
qed







section \<open>The GRUB adapter and the ids of its entries\<close>

lemma digit_char_in: "d < 10 \<Longrightarrow> digit_char d \<in> set ''0123456789''"
  unfolding digit_char_def by (rule nth_mem) simp

lemma digit_char_inj:
  assumes "d < 10" "d' < 10" "digit_char d = digit_char d'"
  shows "d = d'"
proof -
  have "distinct ''0123456789''" by simp
  then show ?thesis
    using assms unfolding digit_char_def by (simp add: nth_eq_iff_index_eq)
qed

lemma str_nat_digits: "set (str_nat n) \<subseteq> set ''0123456789''"
proof (induction n rule: str_nat.induct)
  case (1 n)
  show ?case
  proof (cases "n < 10")
    case True
    then show ?thesis
      using digit_char_in [of n] by (subst str_nat.simps) simp
  next
    case False
    have "n mod 10 < 10" by simp
    then have "digit_char (n mod 10) \<in> set ''0123456789''" by (rule digit_char_in)
    with False 1 show ?thesis
      by (subst str_nat.simps) simp
  qed
qed

lemma str_nat_not_empty: "str_nat n \<noteq> []"
  by (subst str_nat.simps) simp

lemma str_nat_inj: "str_nat n = str_nat m \<Longrightarrow> n = m"
proof (induction n arbitrary: m rule: str_nat.induct)
  case (1 n)
  show ?case
  proof (cases "n < 10")
    case n: True
    show ?thesis
    proof (cases "m < 10")
      case True
      with n "1.prems" show ?thesis
        using digit_char_inj [of n m] by (simp add: str_nat.simps [of n] str_nat.simps [of m])
    next
      case False
      with n "1.prems" have "str_nat (m div 10) = []"
        by (simp add: str_nat.simps [of n] str_nat.simps [of m])
      then show ?thesis using str_nat_not_empty by blast
    qed
  next
    case n: False
    show ?thesis
    proof (cases "m < 10")
      case True
      with n "1.prems" have "str_nat (n div 10) = []"
        by (simp add: str_nat.simps [of n] str_nat.simps [of m])
      then show ?thesis using str_nat_not_empty by blast
    next
      case False
      with n "1.prems" have eq: "str_nat (n div 10) = str_nat (m div 10)"
        and d: "digit_char (n mod 10) = digit_char (m mod 10)"
        by (simp_all add: str_nat.simps [of n] str_nat.simps [of m])
      have "n div 10 = m div 10" using "1.IH" [OF n eq] .
      moreover have "n mod 10 = m mod 10"
        using digit_char_inj [of "n mod 10" "m mod 10"] d by simp
      ultimately have "n div 10 * 10 + n mod 10 = m div 10 * 10 + m mod 10"
        by simp
      then show ?thesis
        by (simp only: div_mult_mod_eq)
    qed
  qed
qed

lemma grub_display_inj:
  assumes "grub_display (i, name) = grub_display (j, name')"
  shows "i = j"
proof -
  define D where "D = set ''0123456789''"
  have B: "CHR ''B'' \<notin> D"
    by (simp add: D_def)
  have dig: "set (str_nat k) \<subseteq> D" for k
    unfolding D_def by (rule str_nat_digits)
  have rv: "rev (grub_display (k, n)) = CHR '')'' # rev (str_nat k) @ ''BURG( '' @ rev n" for k n
    by (simp add: grub_display_def)
  have tw: "takeWhile (\<lambda>c. c \<in> D) (rev (str_nat k) @ ''BURG( '' @ rev n) = rev (str_nat k)" for k n
  proof -
    have "\<And>x. x \<in> set (rev (str_nat k)) \<Longrightarrow> x \<in> D"
      using dig [of k] by (simp add: subset_iff)
    then have "takeWhile (\<lambda>c. c \<in> D) (rev (str_nat k) @ ''BURG( '' @ rev n)
                = rev (str_nat k) @ takeWhile (\<lambda>c. c \<in> D) (''BURG( '' @ rev n)"
      by (rule takeWhile_append2)
    then show ?thesis using B by simp
  qed
  have "rev (grub_display (i, name)) = rev (grub_display (j, name'))"
    by (rule arg_cong [OF assms])
  then have "rev (str_nat i) @ ''BURG( '' @ rev name = rev (str_nat j) @ ''BURG( '' @ rev name'"
    unfolding rv by (rule list.inject [THEN iffD1, THEN conjunct2])
  then have "takeWhile (\<lambda>c. c \<in> D) (rev (str_nat i) @ ''BURG( '' @ rev name)
           = takeWhile (\<lambda>c. c \<in> D) (rev (str_nat j) @ ''BURG( '' @ rev name')"
    by (rule arg_cong)
  then have "rev (str_nat i) = rev (str_nat j)"
    unfolding tw .
  then have "str_nat i = str_nat j"
    by (rule rev_is_rev_conv [THEN iffD1])
  then show ?thesis
    by (rule str_nat_inj)
qed

lemma foldl_upd_other:
  "k \<notin> key ` set es \<Longrightarrow> foldl (\<lambda>m e. m(key e \<mapsto> val e)) m es k = m k"
  by (induction es arbitrary: m) auto

lemma foldl_upd_lookup:
  "distinct (map key es) \<Longrightarrow> e \<in> set es \<Longrightarrow>
     foldl (\<lambda>m e. m(key e \<mapsto> val e)) m es (key e) = Some (val e)"
proof (induction es arbitrary: m)
  case Nil
  then show ?case by simp
next
  case (Cons a es)
  show ?case
  proof (cases "e = a")
    case True
    with Cons.prems have "key a \<notin> key ` set es" by auto
    then have "foldl (\<lambda>m e. m(key e \<mapsto> val e)) (m(key a \<mapsto> val a)) es (key a)
                 = (m(key a \<mapsto> val a)) (key a)"
      by (rule foldl_upd_other)
    then show ?thesis
      unfolding True by (simp only: foldl_Cons fun_upd_same)
  next
    case False
    with Cons show ?thesis by auto
  qed
qed

lemma distinct_grub_displays: "distinct (map grub_display (List.enumerate n names))"
proof -
  have "inj_on grub_display (set (List.enumerate n names))"
  proof (rule inj_onI)
    fix x y
    assume x: "x \<in> set (List.enumerate n names)" and y: "y \<in> set (List.enumerate n names)"
      and eq: "grub_display x = grub_display y"
    obtain i a j b where xy: "x = (i, a)" "y = (j, b)" by (cases x, cases y) auto
    with eq have "i = j" using grub_display_inj by blast
    then show "x = y"
      using x y xy by (auto simp: in_set_enumerate_eq)
  qed
  moreover have "distinct (List.enumerate n names)"
    by (simp add: distinct_enumerate)
  ultimately show ?thesis
    by (simp add: distinct_map)
qed

lemma grub_map_lookup:
  assumes "i < length names"
  shows "grub_map m names (grub_display (i, names ! i)) = Some (str_nat i)"
proof -
  have "(i, names ! i) \<in> set (List.enumerate 0 names)"
    using assms by (simp add: in_set_enumerate_eq)
  then show ?thesis
    unfolding grub_map_def
    using foldl_upd_lookup [of grub_display "List.enumerate 0 names" "(i, names ! i)"
            "\<lambda>e. str_nat (fst e)" m] distinct_grub_displays [of 0 names]
    by simp
qed


lemma get_grub_entries_read:
  assumes "open_text sys w GRUB_CFG_PATH = Yields lines None"
  shows "get_grub_entries sys w =
           (Inr (map (\<lambda>l. the (search_menuentry l)) (filter (\<lambda>l. search_menuentry l \<noteq> None) lines)),
            [Logged INFO (''Successfully fetched ''
               @ str_nat (length (filter (\<lambda>l. search_menuentry l \<noteq> None) lines))
               @ '' GRUB entries.'')])"
  using assms by (simp add: get_grub_entries_def List.map_filter_def comp_def)

text \<open>
  C8. When \<^verbatim>\<open>grub.cfg\<close> is read to its end, \<^verbatim>\<open>get_grub_entries\<close> returns the titles of
  the lines in which the pattern is found, one for each such line and in the order of the
  file: as many entries as there are such lines. \<^verbatim>\<open>enumerate\<close> numbers them from 0 to
  that count less one; \<^verbatim>\<open>setup_ui\<close> stores, under the display text of the entry at
  position \<open>i\<close>, the id \<^verbatim>\<open>str(i)\<close>, whatever the map held before, and these ids differ
  from one another.
\<close>

theorem grub_adapter_numbers_titles_in_file_order:
  "open_text sys w GRUB_CFG_PATH = Yields lines None \<longrightarrow>
     (\<exists>entries log.
        get_grub_entries sys w = (Inr entries, log)
      \<and> entries = map (\<lambda>l. the (search_menuentry l))
                     (filter (\<lambda>l. search_menuentry l \<noteq> None) lines)
      \<and> length entries = length (filter (\<lambda>l. search_menuentry l \<noteq> None) lines)
      \<and> map fst (List.enumerate 0 entries)
          = [0..<length (filter (\<lambda>l. search_menuentry l \<noteq> None) lines)]
      \<and> map snd (List.enumerate 0 entries) = entries
      \<and> (\<forall>i < length entries. \<forall>m.
            grub_map m entries (grub_display (i, entries ! i)) = Some (str_nat i))
      \<and> distinct (map str_nat [0..<length entries]))"
proof
  assume o: "open_text sys w GRUB_CFG_PATH = Yields lines None"
  let ?entries = "map (\<lambda>l. the (search_menuentry l)) (filter (\<lambda>l. search_menuentry l \<noteq> None) lines)"
  have d: "distinct (map str_nat [0..<length ?entries])"
    by (simp add: distinct_map inj_on_def) (blast dest: str_nat_inj)
  show "\<exists>entries log.
        get_grub_entries sys w = (Inr entries, log)
      \<and> entries = ?entries
      \<and> length entries = length (filter (\<lambda>l. search_menuentry l \<noteq> None) lines)
      \<and> map fst (List.enumerate 0 entries)
          = [0..<length (filter (\<lambda>l. search_menuentry l \<noteq> None) lines)]
      \<and> map snd (List.enumerate 0 entries) = entries
      \<and> (\<forall>i < length entries. \<forall>m.
            grub_map m entries (grub_display (i, entries ! i)) = Some (str_nat i))
      \<and> distinct (map str_nat [0..<length entries])"
    using get_grub_entries_read [OF o] d grub_map_lookup [of _ ?entries]
    by (intro exI [of _ ?entries] exI conjI) (simp_all add: enumerate_eq_zip)
qed

theorem grub_adapter_numbers_titles_in_file_order_witness:
  "open_text grub_machine () GRUB_CFG_PATH = Yields (file_lines grub_cfg_text) None
   \<and> length (filter (\<lambda>l. search_menuentry l \<noteq> None) (file_lines grub_cfg_text)) = 3
   \<and> get_grub_entries grub_machine ()
       = (Inr [''Ubuntu'', ''Ubuntu, with Linux 6.1'', ''Windows Boot Manager''],
          [Logged INFO ''Successfully fetched 3 GRUB entries.''])
   \<and> 1 < length [''Ubuntu'', ''Ubuntu, with Linux 6.1'', ''Windows Boot Manager'']
   \<and> grub_display (1, ''Ubuntu, with Linux 6.1'') = ''Ubuntu, with Linux 6.1 (GRUB1)''
   \<and> grub_map Map.empty [''Ubuntu'', ''Ubuntu, with Linux 6.1'', ''Windows Boot Manager'']
         ''Ubuntu, with Linux 6.1 (GRUB1)'' = Some ''1''"
proof -
  let ?titles = "[''Ubuntu'', ''Ubuntu, with Linux 6.1'', ''Windows Boot Manager'']"
  have h0: "open_text grub_machine () GRUB_CFG_PATH = Yields (file_lines grub_cfg_text) None"
    by (simp add: grub_machine_def stateless_def)
  have h1: "get_grub_entries grub_machine ()
       = (Inr ?titles, [Logged INFO ''Successfully fetched 3 GRUB entries.''])"
    by code_simp
  have h2: "length (filter (\<lambda>l. search_menuentry l \<noteq> None) (file_lines grub_cfg_text)) = 3"
    by code_simp
  have h3: "grub_display (1, ''Ubuntu, with Linux 6.1'') = ''Ubuntu, with Linux 6.1 (GRUB1)''"
    by code_simp
  have h4: "str_nat 1 = ''1''"
    by code_simp
  from grub_adapter_numbers_titles_in_file_order [of grub_machine "()" "file_lines grub_cfg_text"] h0
  obtain entries log where
    a: "get_grub_entries grub_machine () = (Inr entries, log)" and
    b: "\<forall>i < length entries. \<forall>m.
          grub_map m entries (grub_display (i, entries ! i)) = Some (str_nat i)"
    by blast
  from a h1 have e: "entries = ?titles" by simp
  have "grub_map Map.empty ?titles (grub_display (1, ?titles ! 1)) = Some (str_nat 1)"
    using b [unfolded e, rule_format, of 1 Map.empty] by simp
  then have h5: "grub_map Map.empty ?titles ''Ubuntu, with Linux 6.1 (GRUB1)'' = Some ''1''"
    using h3 h4 by simp
  show ?thesis
    using h0 h1 h2 h3 h5 by simp
qed

section \<open>What the adapters return when something fails\<close>

lemma get_grub_entries_total:
  "\<exists>entries log. get_grub_entries sys w = (Inr entries, log) \<and> (\<forall>e \<in> set log. \<exists>l t. e = Logged l t)"
  by (auto simp: get_grub_entries_def Let_def split: file_read.splits option.splits)

lemma get_uefi_entries_total:
  "\<exists>entries w' r log. get_uefi_entries sys w = (Inr entries, w', Ran [''efibootmgr'', ''-v''] None r # log)
      \<and> (\<forall>e \<in> set log. \<exists>l t. e = Logged l t)"
  by (auto simp: get_uefi_entries_def Let_def
           split: prod.splits run_result.splits py_exception.splits)

lemma map_filter_none: "(\<forall>x \<in> set xs. f x = None) \<Longrightarrow> List.map_filter f xs = []"
  by (induction xs) auto

text \<open>
  C9, as the code has it. \<^verbatim>\<open>get_grub_entries\<close> and \<^verbatim>\<open>get_uefi_entries\<close> always return a
  list and raise nothing, and apart from starting the firmware tool all they do is log.
  When the configuration file cannot be opened, or the firmware tool cannot be started,
  the list is empty and an error is logged (\<^verbatim>\<open>efibootmgr not found.\<close> when the tool is
  missing). When no line matches, the list is empty. The exit status of the tool is not
  looked at: the entries are those of the lines it printed, whatever it returned. When
  reading the configuration file fails part way, the error is logged and the entries are
  those of the lines read before.
\<close>

theorem adapters_never_raise:
  "(\<exists>entries log. get_grub_entries sys w = (Inr entries, log)
       \<and> (\<forall>e \<in> set log. \<exists>l t. e = Logged l t))
   \<and> (open_text sys w GRUB_CFG_PATH = OpenFails e \<longrightarrow>
        get_grub_entries sys w
          = (Inr [], [Logged ERROR (''Error reading grub.cfg: '' @ exc_str e)]))
   \<and> (open_text sys w GRUB_CFG_PATH = Yields lines fault \<longrightarrow>
        fst (get_grub_entries sys w) = Inr (List.map_filter search_menuentry lines)
        \<and> ((\<forall>l \<in> set lines. search_menuentry l = None) \<longrightarrow> fst (get_grub_entries sys w) = Inr [])
        \<and> (fault = Some e \<longrightarrow>
              snd (get_grub_entries sys w)
                = [Logged ERROR (''Error reading grub.cfg: '' @ exc_str e)]))
   \<and> (\<exists>entries w' r log.
         get_uefi_entries sys w = (Inr entries, w', Ran [''efibootmgr'', ''-v''] None r # log)
       \<and> (\<forall>e \<in> set log. \<exists>l t. e = Logged l t))
   \<and> (subprocess_run sys w [''efibootmgr'', ''-v''] None = (Raised e, w') \<longrightarrow>
        (\<exists>t. get_uefi_entries sys w
                = (Inr [], w', [Ran [''efibootmgr'', ''-v''] None (Raised e), Logged ERROR t])))
   \<and> (subprocess_run sys w [''efibootmgr'', ''-v''] None = (Raised (FileNotFoundError msg), w') \<longrightarrow>
        get_uefi_entries sys w
          = (Inr [], w',
             [Ran [''efibootmgr'', ''-v''] None (Raised (FileNotFoundError msg)),
              Logged ERROR ''efibootmgr not found.'']))
   \<and> (subprocess_run sys w [''efibootmgr'', ''-v''] None = (Completed proc, w') \<longrightarrow>
        fst (get_uefi_entries sys w) = Inr (List.map_filter uefi_line (splitlines (stdout proc)))
        \<and> ((\<forall>l \<in> set (splitlines (stdout proc)). uefi_line l = None) \<longrightarrow>
              fst (get_uefi_entries sys w) = Inr []))"
proof (intro conjI impI)
  show "\<exists>entries log. get_grub_entries sys w = (Inr entries, log)
       \<and> (\<forall>e \<in> set log. \<exists>l t. e = Logged l t)"
    by (rule get_grub_entries_total)
  show "\<exists>entries w' r log.
         get_uefi_entries sys w = (Inr entries, w', Ran [''efibootmgr'', ''-v''] None r # log)
       \<and> (\<forall>e \<in> set log. \<exists>l t. e = Logged l t)"
    by (rule get_uefi_entries_total)
next
  assume "open_text sys w GRUB_CFG_PATH = OpenFails e"
  then show "get_grub_entries sys w
          = (Inr [], [Logged ERROR (''Error reading grub.cfg: '' @ exc_str e)])"
    by (simp add: get_grub_entries_def)
next
  assume y: "open_text sys w GRUB_CFG_PATH = Yields lines fault"
  then show g: "fst (get_grub_entries sys w) = Inr (List.map_filter search_menuentry lines)"
    by (simp add: get_grub_entries_def Let_def split: option.splits)
  {
    assume "\<forall>l \<in> set lines. search_menuentry l = None"
    then show "fst (get_grub_entries sys w) = Inr []"
      using g by (simp add: map_filter_none)
  }
  {
    assume "fault = Some e"
    with y show "snd (get_grub_entries sys w)
                = [Logged ERROR (''Error reading grub.cfg: '' @ exc_str e)]"
      by (simp add: get_grub_entries_def Let_def)
  }
next
  assume "subprocess_run sys w [''efibootmgr'', ''-v''] None = (Raised e, w')"
  then show "\<exists>t. get_uefi_entries sys w
                = (Inr [], w', [Ran [''efibootmgr'', ''-v''] None (Raised e), Logged ERROR t])"
    by (cases e) (simp_all add: get_uefi_entries_def Let_def)
next
  assume "subprocess_run sys w [''efibootmgr'', ''-v''] None = (Raised (FileNotFoundError msg), w')"
  then show "get_uefi_entries sys w
          = (Inr [], w',
             [Ran [''efibootmgr'', ''-v''] None (Raised (FileNotFoundError msg)),
              Logged ERROR ''efibootmgr not found.''])"
    by (simp add: get_uefi_entries_def Let_def)
next
  assume "subprocess_run sys w [''efibootmgr'', ''-v''] None = (Completed proc, w')"
  then show u: "fst (get_uefi_entries sys w) = Inr (List.map_filter uefi_line (splitlines (stdout proc)))"
    by (simp add: get_uefi_entries_def Let_def)
  {
    assume "\<forall>l \<in> set (splitlines (stdout proc)). uefi_line l = None"
    then show "fst (get_uefi_entries sys w) = Inr []"
      using u by (simp add: map_filter_none)
  }
qed

theorem adapters_never_raise_witness:
  "open_text no_grub_cfg () GRUB_CFG_PATH = OpenFails (FileNotFoundError ''[Errno 2] No such file or directory: /boot/grub/grub.cfg'')
   \<and> get_grub_entries no_grub_cfg ()
       = (Inr [], [Logged ERROR (''Error reading grub.cfg: '' @ exc_str (FileNotFoundError ''[Errno 2] No such file or directory: /boot/grub/grub.cfg''))])
   \<and> subprocess_run no_grub_cfg () [''efibootmgr'', ''-v''] None = (Raised (FileNotFoundError ''[Errno 2] No such file or directory: efibootmgr''), ())
   \<and> get_uefi_entries no_grub_cfg ()
       = (Inr [], (), [Ran [''efibootmgr'', ''-v''] None (Raised (FileNotFoundError ''[Errno 2] No such file or directory: efibootmgr'')),
                       Logged ERROR ''efibootmgr not found.''])
   \<and> open_text half_read () GRUB_CFG_PATH
       = Yields (take 2 (file_lines grub_cfg_text)) (Some (UnicodeDecodeError ''utf-8 codec cannot decode byte 0xff''))
   \<and> fst (get_grub_entries half_read ()) = Inr [''Ubuntu'']
   \<and> snd (get_grub_entries half_read ())
       = [Logged ERROR (''Error reading grub.cfg: '' @ exc_str (UnicodeDecodeError ''utf-8 codec cannot decode byte 0xff''))]
   \<and> subprocess_run half_read () [''efibootmgr'', ''-v''] None
       = (Completed \<lparr>returncode = 1, stdout = firmware_listing, stderr = ''failed''\<rparr>, ())
   \<and> fst (get_uefi_entries half_read ()) = Inr [(''0000'', ''Windows Boot Manager''), (''0001'', ''ubuntu''), (''0002'', ''USB''), (''000A'', ''Network'')]
   \<and> open_text nothing_to_list () GRUB_CFG_PATH = Yields [''# empty config'' @ [LF]] None
   \<and> map search_menuentry [''# empty config'' @ [LF]] = [None]
   \<and> fst (get_grub_entries nothing_to_list ()) = Inr []
   \<and> subprocess_run nothing_to_list () [''efibootmgr'', ''-v''] None
       = (Completed \<lparr>returncode = 0,
                     stdout = ''BootCurrent: 0001'' @ [LF] @ ''Timeout: 1 seconds'' @ [LF],
                     stderr = []\<rparr>, ())
   \<and> map uefi_line (splitlines (''BootCurrent: 0001'' @ [LF] @ ''Timeout: 1 seconds'' @ [LF]))
       = [None, None]
   \<and> fst (get_uefi_entries nothing_to_list ()) = Inr []"
proof -
  have b0: "open_text no_grub_cfg () GRUB_CFG_PATH = OpenFails (FileNotFoundError ''[Errno 2] No such file or directory: /boot/grub/grub.cfg'')"
    by code_simp
  have b1: "get_grub_entries no_grub_cfg ()
       = (Inr [], [Logged ERROR (''Error reading grub.cfg: '' @ exc_str (FileNotFoundError ''[Errno 2] No such file or directory: /boot/grub/grub.cfg''))])"
    by code_simp
  have b2: "subprocess_run no_grub_cfg () [''efibootmgr'', ''-v''] None = (Raised (FileNotFoundError ''[Errno 2] No such file or directory: efibootmgr''), ())"
    by code_simp
  have b3: "get_uefi_entries no_grub_cfg ()
       = (Inr [], (), [Ran [''efibootmgr'', ''-v''] None (Raised (FileNotFoundError ''[Errno 2] No such file or directory: efibootmgr'')),
                       Logged ERROR ''efibootmgr not found.''])"
    by code_simp
  have b4: "open_text half_read () GRUB_CFG_PATH
       = Yields (take 2 (file_lines grub_cfg_text)) (Some (UnicodeDecodeError ''utf-8 codec cannot decode byte 0xff''))"
    by code_simp
  have b5: "fst (get_grub_entries half_read ()) = Inr [''Ubuntu'']"
    by code_simp
  have b6: "snd (get_grub_entries half_read ())
       = [Logged ERROR (''Error reading grub.cfg: '' @ exc_str (UnicodeDecodeError ''utf-8 codec cannot decode byte 0xff''))]"
    by code_simp
  have b7: "subprocess_run half_read () [''efibootmgr'', ''-v''] None
       = (Completed \<lparr>returncode = 1, stdout = firmware_listing, stderr = ''failed''\<rparr>, ())"
    by code_simp
  have b8: "fst (get_uefi_entries half_read ()) = Inr [(''0000'', ''Windows Boot Manager''), (''0001'', ''ubuntu''), (''0002'', ''USB''), (''000A'', ''Network'')]"
    by code_simp
  have b9: "open_text nothing_to_list () GRUB_CFG_PATH = Yields [''# empty config'' @ [LF]] None"
    by code_simp
  have b10: "(\<forall>l \<in> set [''# empty config'' @ [LF]]. search_menuentry l = None)"
    by code_simp
  have b11: "fst (get_grub_entries nothing_to_list ()) = Inr []"
    by code_simp
  have b12: "subprocess_run nothing_to_list () [''efibootmgr'', ''-v''] None
       = (Completed \<lparr>returncode = 0,
                     stdout = ''BootCurrent: 0001'' @ [LF] @ ''Timeout: 1 seconds'' @ [LF],
                     stderr = []\<rparr>, ())"
    by code_simp
  have b13: "(\<forall>l \<in> set (splitlines (''BootCurrent: 0001'' @ [LF] @ ''Timeout: 1 seconds'' @ [LF])).
         uefi_line l = None)"
    by code_simp
  have b14: "fst (get_uefi_entries nothing_to_list ()) = Inr []"
    by code_simp
  have c10: "map search_menuentry [''# empty config'' @ [LF]] = [None]"
    by code_simp
  have c13: "map uefi_line (splitlines (''BootCurrent: 0001'' @ [LF] @ ''Timeout: 1 seconds'' @ [LF]))
       = [None, None]"
    by code_simp
  show ?thesis
    using adapters_never_raise
            [where sys = no_grub_cfg and w = "()" and e = "FileNotFoundError ''[Errno 2] No such file or directory: /boot/grub/grub.cfg''"]
          adapters_never_raise
            [where sys = no_grub_cfg and w = "()" and e = "FileNotFoundError ''[Errno 2] No such file or directory: efibootmgr''"
               and msg = "''[Errno 2] No such file or directory: efibootmgr''" and w' = "()"]
          adapters_never_raise
            [where sys = half_read and w = "()" and lines = "take 2 (file_lines grub_cfg_text)"
               and fault = "Some (UnicodeDecodeError ''utf-8 codec cannot decode byte 0xff'')" and e = "UnicodeDecodeError ''utf-8 codec cannot decode byte 0xff''" and w' = "()"
               and proc = "\<lparr>returncode = 1, stdout = firmware_listing, stderr = ''failed''\<rparr>"]
          adapters_never_raise
            [where sys = nothing_to_list and w = "()" and lines = "[''# empty config'' @ [LF]]"
               and fault = None and w' = "()"
               and proc = "\<lparr>returncode = 0,
                     stdout = ''BootCurrent: 0001'' @ [LF] @ ''Timeout: 1 seconds'' @ [LF],
                     stderr = []\<rparr>"]
          b0 b1 b2 b3 b4 b5 b6 b7 b8 b9 b10 b11 b12 b13 b14 c10 c13
    by simp
qed

text \<open>
  C9 as the specification words it fails in two places: the firmware tool exits with 1
  after printing its listing and the adapter returns the four entries; reading the
  configuration file fails after the second line and the adapter returns the entry of the
  first two lines.
\<close>

theorem adapters_return_entries_after_failure_counterexample:
  "subprocess_run half_read () [''efibootmgr'', ''-v''] None
     = (Completed \<lparr>returncode = 1, stdout = firmware_listing, stderr = ''failed''\<rparr>, ())
   \<and> get_uefi_entries half_read ()
     = (Inr [(''0000'', ''Windows Boot Manager''), (''0001'', ''ubuntu''), (''0002'', ''USB''), (''000A'', ''Network'')], (),
        [Ran [''efibootmgr'', ''-v''] None
           (Completed \<lparr>returncode = 1, stdout = firmware_listing, stderr = ''failed''\<rparr>),
         Logged INFO ''Successfully fetched 4 UEFI entries.''])
   \<and> open_text half_read () GRUB_CFG_PATH
     = Yields (take 2 (file_lines grub_cfg_text)) (Some (UnicodeDecodeError ''utf-8 codec cannot decode byte 0xff''))
   \<and> get_grub_entries half_read ()
     = (Inr [''Ubuntu''],
        [Logged ERROR ''Error reading grub.cfg: utf-8 codec cannot decode byte 0xff''])"
  by code_simp

section \<open>The inventory built by \<^verbatim>\<open>setup_ui\<close>\<close>

lemma uefi_display_inj:
  assumes "uefi_display (b, n) = uefi_display (b', n')" and "length b = length b'"
  shows "b = b' \<and> n = n'"
proof -
  have "n @ ('' (Boot'' @ b @ '')'') = n' @ ('' (Boot'' @ b' @ '')'')"
    using assms(1) by (simp add: uefi_display_def)
  moreover have "length ('' (Boot'' @ b @ '')'') = length ('' (Boot'' @ b' @ '')'')"
    using assms(2) by simp
  ultimately have "n = n' \<and> '' (Boot'' @ b @ '')'' = '' (Boot'' @ b' @ '')''"
    using append_eq_append_conv [of n n' "'' (Boot'' @ b @ '')''" "'' (Boot'' @ b' @ '')''"]
    by blast
  then show ?thesis by simp
qed

lemma burg_nth:
  assumes "j < 4"
  shows "(''BURG( '' @ r) ! j \<noteq> CHR ''t''"
proof -
  from assms consider "j = 0" | "j = Suc 0" | "j = Suc (Suc 0)" | "j = Suc (Suc (Suc 0))"
    by arith
  then show ?thesis
    by cases simp_all
qed

lemma grub_display_rev_nth5: "rev (grub_display (i, n)) ! 5 \<noteq> CHR ''t''"
proof -
  define a where "a = rev (str_nat i)"
  have rv: "rev (grub_display (i, n)) = CHR '')'' # (a @ (''BURG( '' @ rev n))"
    by (simp add: grub_display_def a_def)
  have ne: "a \<noteq> []"
    using str_nat_not_empty [of i] by (simp add: a_def)
  define D where "D = set ''0123456789''"
  have dig: "set a \<subseteq> D"
    using str_nat_digits [of i] by (simp add: a_def D_def)
  have t: "CHR ''t'' \<notin> D" by (simp add: D_def)
  have "(a @ (''BURG( '' @ rev n)) ! 4 \<noteq> CHR ''t''"
  proof (cases "4 < length a")
    case True
    then have "a ! 4 \<in> set a" by simp
    with dig have "a ! 4 \<in> D" by (rule subsetD)
    with t have "a ! 4 \<noteq> CHR ''t''" by metis
    with True show ?thesis by (simp add: nth_append)
  next
    case False
    with ne have "4 - length a < 4" by (cases a) auto
    then have "(''BURG( '' @ rev n) ! (4 - length a) \<noteq> CHR ''t''" by (rule burg_nth)
    with False show ?thesis by (simp add: nth_append)
  qed
  then show ?thesis
    unfolding rv by simp
qed

lemma uefi_display_rev_nth5:
  assumes "length b = 4"
  shows "rev (uefi_display (b, n)) ! 5 = CHR ''t''"
proof -
  have "rev (uefi_display (b, n)) = CHR '')'' # (rev b @ (''tooB( '' @ rev n))"
    by (simp add: uefi_display_def)
  then show ?thesis
    using assms by (simp add: nth_append)
qed

lemma displays_differ:
  assumes "length b = 4"
  shows "uefi_display (b, n) \<noteq> grub_display (i, n')"
proof
  assume "uefi_display (b, n) = grub_display (i, n')"
  then have "rev (uefi_display (b, n)) ! 5 = rev (grub_display (i, n')) ! 5" by simp
  then show False
    using uefi_display_rev_nth5 [OF assms, of n] grub_display_rev_nth5 [of i n'] by simp
qed


lemma list_items_rows:
  "set entries \<subseteq> dom m \<Longrightarrow>
     list_items m d entries = Inr (map (\<lambda>entry. (entry, d = m entry)) entries)"
proof (induction entries)
  case Nil
  show ?case by simp
next
  case (Cons entry entries)
  then obtain key where k: "m entry = Some key" by auto
  have "list_items m d entries = Inr (map (\<lambda>entry. (entry, d = m entry)) entries)"
    using Cons by simp
  with k show ?case by auto
qed

lemma foldl_upd_dom:
  "dom (foldl (\<lambda>m e. m(key e \<mapsto> val e)) m es) = dom m \<union> key ` set es"
  by (induction es arbitrary: m) auto

lemma foldl_upd_value:
  "e \<in> set es \<Longrightarrow> (\<And>x. x \<in> set es \<Longrightarrow> key x = key e \<Longrightarrow> val x = val e) \<Longrightarrow>
     foldl (\<lambda>m e. m(key e \<mapsto> val e)) m es (key e) = Some (val e)"
proof (induction es arbitrary: m rule: rev_induct)
  case Nil
  then show ?case by simp
next
  case (snoc a es)
  let ?F = "\<lambda>m e. m(key e \<mapsto> val e)"
  have step: "foldl ?F m (es @ [a]) (key e) = ((foldl ?F m es)(key a \<mapsto> val a)) (key e)"
    by (simp only: foldl_append foldl_Cons foldl_Nil)
  show ?case
  proof (cases "key a = key e")
    case True
    then have "val a = val e" using snoc.prems(2) [of a] by simp
    with True show ?thesis unfolding step by (simp only: fun_upd_same)
  next
    case False
    then have "e \<in> set es" using snoc.prems(1) by auto
    moreover have "\<And>x. x \<in> set es \<Longrightarrow> key x = key e \<Longrightarrow> val x = val e"
    proof -
      fix x
      assume "x \<in> set es" and k: "key x = key e"
      then have "x \<in> set (es @ [a])" by simp
      then show "val x = val e" using k by (rule snoc.prems(2))
    qed
    ultimately have ih: "foldl ?F m es (key e) = Some (val e)"
      by (rule snoc.IH)
    have ne: "key e \<noteq> key a" using False by simp
    have "foldl ?F m (es @ [a]) (key e) = ((foldl ?F m es)(key a \<mapsto> val a)) (key e)"
      by (rule step)
    also have "\<dots> = foldl ?F m es (key e)"
      using ne by (rule fun_upd_other)
    also have "\<dots> = Some (val e)"
      by (rule ih)
    finally show ?thesis .
  qed
qed

lemma boot_at_length: "boot_at s = Some (b, g) \<Longrightarrow> length b = 4"
proof -
  assume a: "boot_at s = Some (b, g)"
  define bn where "bn = take 4 (drop 4 s)"
  define X where "X = give_back (length (takeWhile isspace
         (case drop 8 s of c # cs \<Rightarrow> if c = CHR ''*'' then cs else drop 8 s | [] \<Rightarrow> drop 8 s)))
         (case drop 8 s of c # cs \<Rightarrow> if c = CHR ''*'' then cs else drop 8 s | [] \<Rightarrow> drop 8 s)"
  have eq: "boot_at s =
     (if startswith s ''Boot'' then
        if length bn = 4 \<and> list_all is_hex bn then map_option (\<lambda>g. (bn, g)) X else None
      else None)"
    unfolding boot_at_def Let_def bn_def X_def by (rule refl)
  show ?thesis
  proof (cases "startswith s ''Boot'' \<and> length bn = 4 \<and> list_all is_hex bn")
    case True
    with a eq have "map_option (\<lambda>g. (bn, g)) X = Some (b, g)" by simp
    then have "b = bn" by (cases X) auto
    with True show ?thesis by simp
  next
    case False
    with eq have "boot_at s = None" by auto
    with a show ?thesis by simp
  qed
qed

lemma search_boot_length: "search_boot s = Some (b, g) \<Longrightarrow> length b = 4"
proof (induction s)
  case Nil
  then show ?case by (simp add: boot_at_length)
next
  case (Cons c cs)
  show ?case
  proof (cases "boot_at (c # cs)")
    case None
    with Cons show ?thesis by simp
  next
    case (Some m)
    with Cons.prems have "boot_at (c # cs) = Some (b, g)" by simp
    then show ?thesis by (rule boot_at_length)
  qed
qed

lemma uefi_line_length: "uefi_line l = Some (b, n) \<Longrightarrow> length b = 4"
proof -
  assume "uefi_line l = Some (b, n)"
  then obtain g where "search_boot l = Some (b, g)"
    by (cases "search_boot l") (auto simp: uefi_line_def)
  then show ?thesis by (rule search_boot_length)
qed

lemma map_filter_set: "x \<in> set (List.map_filter f xs) \<Longrightarrow> \<exists>y \<in> set xs. f y = Some x"
  by (induction xs) (auto split: option.splits)

lemma get_uefi_entries_bootnums:
  assumes "get_uefi_entries sys w = (Inr entries, w', evs)" and "(b, n) \<in> set entries"
  shows "length b = 4"
proof -
  obtain r w\<^sub>1 where run: "subprocess_run sys w [''efibootmgr'', ''-v''] None = (r, w\<^sub>1)"
    by (cases "subprocess_run sys w [''efibootmgr'', ''-v''] None") auto
  show ?thesis
  proof (cases r)
    case (Completed proc)
    with run assms(1) have "entries = List.map_filter uefi_line (splitlines (stdout proc))"
      by (simp add: get_uefi_entries_def Let_def)
    with assms(2) obtain l where "uefi_line l = Some (b, n)"
      using map_filter_set [of "(b, n)" uefi_line "splitlines (stdout proc)"] by auto
    then show ?thesis by (rule uefi_line_length)
  next
    case (Raised e)
    with run assms(1) have "entries = []"
      by (cases e) (simp_all add: get_uefi_entries_def Let_def)
    with assms(2) show ?thesis by simp
  qed
qed

lemma get_default_entry_total:
  "\<exists>d w' evs. get_default_entry sys w = (Inr d, w', evs)"
proof -
  obtain r w\<^sub>1 where run: "subprocess_run sys w [''grub-editenv'', ''list''] None = (r, w\<^sub>1)"
    by (cases "subprocess_run sys w [''grub-editenv'', ''list''] None") auto
  show ?thesis
  proof (cases r)
    case (Completed proc)
    show ?thesis
    proof (cases "find_saved_entry (splitlines (stdout proc))")
      case (Inl e)
      with run Completed show ?thesis by (simp add: get_default_entry_def Let_def)
    next
      case (Inr v)
      with run Completed show ?thesis
        by (cases v) (simp_all add: get_default_entry_def Let_def)
    qed
  next
    case (Raised e)
    with run show ?thesis by (simp add: get_default_entry_def Let_def)
  qed
qed


lemma uefi_map_lookup:
  assumes len: "\<And>b n. (b, n) \<in> set uefi \<Longrightarrow> length b = 4" and e: "e \<in> set uefi"
  shows "uefi_map m uefi (uefi_display e) = Some (fst e)"
  unfolding uefi_map_def
proof (rule foldl_upd_value [OF e])
  fix x
  assume x: "x \<in> set uefi" and k: "uefi_display x = uefi_display e"
  obtain b n b' n' where xe: "x = (b, n)" "e = (b', n')" by (cases x, cases e) auto
  with x e len have "length b = length b'" by simp
  with k xe show "fst x = fst e" using uefi_display_inj [of b n b' n'] by simp
qed

lemma grub_map_keeps_uefi:
  assumes "length (fst e) = 4"
  shows "grub_map m grub (uefi_display e) = m (uefi_display e)"
  unfolding grub_map_def
proof (rule foldl_upd_other)
  show "uefi_display e \<notin> grub_display ` set (List.enumerate 0 grub)"
  proof
    assume "uefi_display e \<in> grub_display ` set (List.enumerate 0 grub)"
    then obtain g where "uefi_display e = grub_display g" by auto
    then show False
      using displays_differ [OF assms, of "snd e" "fst g" "snd g"] by simp
  qed
qed

lemma grub_map_entry:
  assumes "g \<in> set (List.enumerate 0 grub)"
  shows "grub_map m grub (grub_display g) = Some (str_nat (fst g))"
  unfolding grub_map_def
  using distinct_grub_displays [of 0 grub] assms by (rule foldl_upd_lookup)

lemma build_ui_rows:
  assumes len4: "\<forall>e \<in> set uefi. length (fst e) = 4"
  shows "\<exists>u. build_ui uefi grub d = Inr u
     \<and> items u = map (\<lambda>e. (uefi_display e, d = Some (fst e))) uefi
                 @ map (\<lambda>e. (grub_display e, d = Some (str_nat (fst e)))) (List.enumerate 0 grub)
     \<and> (\<forall>e \<in> set uefi. entry_map u (uefi_display e) = Some (fst e))
     \<and> (\<forall>g \<in> set (List.enumerate 0 grub). entry_map u (grub_display g) = Some (str_nat (fst g)))"
proof -
  have len: "\<And>b n. (b, n) \<in> set uefi \<Longrightarrow> length b = 4"
    using len4 by auto
  define m where "m = grub_map (uefi_map Map.empty uefi) grub"
  have u: "m (uefi_display e) = Some (fst e)" if "e \<in> set uefi" for e
  proof -
    have "length (fst e) = 4" using len [of "fst e" "snd e"] that by simp
    then have "m (uefi_display e) = uefi_map Map.empty uefi (uefi_display e)"
      unfolding m_def by (rule grub_map_keeps_uefi)
    also have "\<dots> = Some (fst e)" using len that by (rule uefi_map_lookup)
    finally show ?thesis .
  qed
  have g: "m (grub_display g) = Some (str_nat (fst g))" if "g \<in> set (List.enumerate 0 grub)" for g
    unfolding m_def using that by (rule grub_map_entry)
  have "set (all_entries uefi grub) \<subseteq> dom m"
    using u g by (auto simp: all_entries_def)
  then have "list_items m d (all_entries uefi grub)
               = Inr (map (\<lambda>entry. (entry, d = m entry)) (all_entries uefi grub))"
    by (rule list_items_rows)
  also have "map (\<lambda>entry. (entry, d = m entry)) (all_entries uefi grub)
               = map (\<lambda>e. (uefi_display e, d = Some (fst e))) uefi
                 @ map (\<lambda>e. (grub_display e, d = Some (str_nat (fst e)))) (List.enumerate 0 grub)"
    using u g by (simp add: all_entries_def)
  finally have "build_ui uefi grub d
                  = Inr \<lparr>entry_map = m,
                         items = map (\<lambda>e. (uefi_display e, d = Some (fst e))) uefi
                 @ map (\<lambda>e. (grub_display e, d = Some (str_nat (fst e)))) (List.enumerate 0 grub)\<rparr>"
    by (simp add: build_ui_def m_def)
  then show ?thesis
    using u g by simp
qed

lemma distinct_uefi_displays:
  assumes len: "\<And>b n. (b, n) \<in> set uefi \<Longrightarrow> length b = 4" and d: "distinct (map fst uefi)"
  shows "distinct (map uefi_display uefi)"
proof -
  have "inj_on uefi_display (set uefi)"
  proof (rule inj_onI)
    fix x y
    assume x: "x \<in> set uefi" and y: "y \<in> set uefi" and eq: "uefi_display x = uefi_display y"
    obtain b n b' n' where xy: "x = (b, n)" "y = (b', n')" by (cases x, cases y) auto
    with x y len have "length b = length b'" by simp
    with eq xy show "x = y" using uefi_display_inj [of b n b' n'] by simp
  qed
  moreover have "distinct uefi" using d by (simp add: distinct_map)
  ultimately show ?thesis by (simp add: distinct_map)
qed


text \<open>
  C10, as the code has it. \<^verbatim>\<open>setup_ui\<close> never raises. It lists one row for each entry
  of the firmware, in the order of the listing, then one row for each entry of GRUB, and
  keeps under each display text the id of its entry: the boot number, or the position as
  a string. The display text of an entry of the firmware is never that of an entry of
  GRUB, so the two kinds of entries stay apart in \<^verbatim>\<open>entry_map\<close>. The ids of the entries of
  GRUB differ from one another, and so do their display texts; the rows of the firmware
  are distinct when the listing repeats no boot number. The ids carry no mark of where
  they come from: a row of either kind is marked as the default when its id is the saved
  entry that the resolver of GRUB returned.
\<close>

theorem inventory_rows_and_ids:
  "\<exists>grub log uefi w\<^sub>1 evs\<^sub>1 d w\<^sub>2 evs\<^sub>2 u.
      get_grub_entries sys w = (Inr grub, log)
    \<and> get_uefi_entries sys w = (Inr uefi, w\<^sub>1, evs\<^sub>1)
    \<and> get_default_entry sys w\<^sub>1 = (Inr d, w\<^sub>2, evs\<^sub>2)
    \<and> setup_ui sys w = (Inr u, w\<^sub>2, log @ evs\<^sub>1 @ evs\<^sub>2)
    \<and> items u = map (\<lambda>e. (uefi_display e, d = Some (fst e))) uefi
                @ map (\<lambda>e. (grub_display e, d = Some (str_nat (fst e)))) (List.enumerate 0 grub)
    \<and> (\<forall>e \<in> set uefi. entry_map u (uefi_display e) = Some (fst e))
    \<and> (\<forall>g \<in> set (List.enumerate 0 grub). entry_map u (grub_display g) = Some (str_nat (fst g)))
    \<and> (\<forall>e \<in> set uefi. \<forall>g \<in> set (List.enumerate 0 grub). uefi_display e \<noteq> grub_display g)
    \<and> distinct (map (\<lambda>g. str_nat (fst g)) (List.enumerate 0 grub))
    \<and> distinct (map grub_display (List.enumerate 0 grub))
    \<and> (distinct (map fst uefi) \<longrightarrow> distinct (map fst (items u)))"
proof -
  obtain grub log where gr: "get_grub_entries sys w = (Inr grub, log)"
    using get_grub_entries_total [of sys w] by blast
  obtain uefi w\<^sub>1 r logs where
    ue: "get_uefi_entries sys w = (Inr uefi, w\<^sub>1, Ran [''efibootmgr'', ''-v''] None r # logs)"
    using get_uefi_entries_total [of sys w] by blast
  obtain d w\<^sub>2 evs\<^sub>2 where de: "get_default_entry sys w\<^sub>1 = (Inr d, w\<^sub>2, evs\<^sub>2)"
    using get_default_entry_total [of sys w\<^sub>1] by blast
  let ?evs\<^sub>1 = "Ran [''efibootmgr'', ''-v''] None r # logs"
  have len: "\<And>b n. (b, n) \<in> set uefi \<Longrightarrow> length b = 4"
    using ue by (rule get_uefi_entries_bootnums)
  have len4: "\<forall>e \<in> set uefi. length (fst e) = 4"
    using len by auto
  from build_ui_rows [OF len4, of grub d] obtain u where
    b: "build_ui uefi grub d = Inr u"
    and rows: "items u = map (\<lambda>e. (uefi_display e, d = Some (fst e))) uefi
                @ map (\<lambda>e. (grub_display e, d = Some (str_nat (fst e)))) (List.enumerate 0 grub)"
    and um: "\<forall>e \<in> set uefi. entry_map u (uefi_display e) = Some (fst e)"
    and gm: "\<forall>g \<in> set (List.enumerate 0 grub). entry_map u (grub_display g) = Some (str_nat (fst g))"
    by blast
  have su: "setup_ui sys w = (Inr u, w\<^sub>2, log @ ?evs\<^sub>1 @ evs\<^sub>2)"
    using gr ue de b by (simp add: setup_ui_def)
  have cross: "\<forall>e \<in> set uefi. \<forall>g \<in> set (List.enumerate 0 grub). uefi_display e \<noteq> grub_display g"
  proof (intro ballI)
    fix e g
    assume "e \<in> set uefi"
    then have "length (fst e) = 4" using len [of "fst e" "snd e"] by simp
    then show "uefi_display e \<noteq> grub_display g"
      using displays_differ [of "fst e" "snd e" "fst g" "snd g"] by simp
  qed
  have ids: "distinct (map (\<lambda>g. str_nat (fst g)) (List.enumerate 0 grub))"
  proof -
    have "map (\<lambda>g. str_nat (fst g)) (List.enumerate 0 grub) = map str_nat [0..<length grub]"
      by (rule nth_equalityI) (simp_all add: nth_enumerate_eq)
    moreover have "distinct (map str_nat [0..<length grub])"
      by (simp add: distinct_map inj_on_def) (blast dest: str_nat_inj)
    ultimately show ?thesis by simp
  qed
  have dg: "distinct (map grub_display (List.enumerate 0 grub))"
    by (rule distinct_grub_displays)
  have dr: "distinct (map fst (items u))" if "distinct (map fst uefi)"
  proof -
    have "distinct (map uefi_display uefi)"
      using len that by (rule distinct_uefi_displays)
    moreover have "map fst (items u)
                     = map uefi_display uefi @ map grub_display (List.enumerate 0 grub)"
      unfolding rows by (simp add: comp_def)
    ultimately show ?thesis
      using dg cross by auto
  qed
  show ?thesis
    using gr ue de su rows um gm cross ids dg dr by blast
qed


theorem inventory_rows_and_ids_witness:
  "fst (get_grub_entries dual_boot ()) = Inr [''Ubuntu'', ''Ubuntu, with Linux 6.1'', ''Windows Boot Manager'']
   \<and> fst (get_uefi_entries dual_boot ())
       = Inr [(''0000'', ''Windows Boot Manager''), (''0001'', ''ubuntu''), (''0002'', ''USB''),
           (''000A'', ''Network'')]
   \<and> fst (get_default_entry dual_boot ()) = Inr (Some ''0'')
   \<and> distinct (map fst [(''0000'', ''Windows Boot Manager''), (''0001'', ''ubuntu''), (''0002'', ''USB''),
           (''000A'', ''Network'')])
   \<and> (''0000'', ''Windows Boot Manager'') \<in> set [(''0000'', ''Windows Boot Manager''), (''0001'', ''ubuntu''), (''0002'', ''USB''),
           (''000A'', ''Network'')]
   \<and> (0, ''Ubuntu'') \<in> set (List.enumerate 0 [''Ubuntu'', ''Ubuntu, with Linux 6.1'', ''Windows Boot Manager''])
   \<and> rows_of (fst (setup_ui dual_boot ()))
       = [(''Windows Boot Manager (Boot0000)'', False), (''ubuntu (Boot0001)'', False),
          (''USB (Boot0002)'', False), (''Network (Boot000A)'', False),
          (''Ubuntu (GRUB0)'', True), (''Ubuntu, with Linux 6.1 (GRUB1)'', False),
          (''Windows Boot Manager (GRUB2)'', False)]
   \<and> id_in (fst (setup_ui dual_boot ())) ''Windows Boot Manager (Boot0000)'' = Some ''0000''
   \<and> id_in (fst (setup_ui dual_boot ())) ''Ubuntu (GRUB0)'' = Some ''0''
   \<and> ''Windows Boot Manager (Boot0000)'' \<noteq> ''Windows Boot Manager (GRUB2)''
   \<and> distinct (map fst (rows_of (fst (setup_ui dual_boot ()))))"
proof -
  let ?four = "[(''0000'', ''Windows Boot Manager''), (''0001'', ''ubuntu''), (''0002'', ''USB''),
           (''000A'', ''Network'')]"
  let ?titles = "[''Ubuntu'', ''Ubuntu, with Linux 6.1'', ''Windows Boot Manager'']"
  have h0: "fst (get_grub_entries dual_boot ()) = Inr ?titles"
    by code_simp
  have h1: "fst (get_uefi_entries dual_boot ()) = Inr ?four"
    by code_simp
  have h2: "fst (get_default_entry dual_boot ()) = Inr (Some ''0'')"
    by code_simp
  have h3: "distinct (map fst ?four)"
    by simp
  have h4: "(''0000'', ''Windows Boot Manager'') \<in> set ?four"
    by simp
  have h5: "(0, ''Ubuntu'') \<in> set (List.enumerate 0 ?titles)"
    by (simp add: in_set_enumerate_eq)
  have h6: "rows_of (fst (setup_ui dual_boot ()))
       = [(''Windows Boot Manager (Boot0000)'', False), (''ubuntu (Boot0001)'', False),
          (''USB (Boot0002)'', False), (''Network (Boot000A)'', False),
          (''Ubuntu (GRUB0)'', True), (''Ubuntu, with Linux 6.1 (GRUB1)'', False),
          (''Windows Boot Manager (GRUB2)'', False)]"
    by code_simp
  have h7: "uefi_display (''0000'', ''Windows Boot Manager'') = ''Windows Boot Manager (Boot0000)''"
    by (simp add: uefi_display_def)
  have h8: "grub_display (0, ''Ubuntu'') = ''Ubuntu (GRUB0)''"
    by code_simp
  have h9: "str_nat 0 = ''0''"
    by code_simp
  from inventory_rows_and_ids [of dual_boot "()"]
  obtain grub log uefi w\<^sub>1 evs\<^sub>1 d w\<^sub>2 evs\<^sub>2 u where
    gr: "get_grub_entries dual_boot () = (Inr grub, log)" and
    ue: "get_uefi_entries dual_boot () = (Inr uefi, w\<^sub>1, evs\<^sub>1)" and
    su: "setup_ui dual_boot () = (Inr u, w\<^sub>2, log @ evs\<^sub>1 @ evs\<^sub>2)" and
    um: "\<forall>e \<in> set uefi. entry_map u (uefi_display e) = Some (fst e)" and
    gm: "\<forall>g \<in> set (List.enumerate 0 grub). entry_map u (grub_display g) = Some (str_nat (fst g))" and
    cross: "\<forall>e \<in> set uefi. \<forall>g \<in> set (List.enumerate 0 grub). uefi_display e \<noteq> grub_display g" and
    dr: "distinct (map fst uefi) \<longrightarrow> distinct (map fst (items u))"
    by blast
  have g: "grub = ?titles" using gr h0 by simp
  have f: "uefi = ?four" using ue h1 by simp
  have i1: "id_in (fst (setup_ui dual_boot ())) ''Windows Boot Manager (Boot0000)'' = Some ''0000''"
    using um [unfolded f, rule_format, OF h4] h7 su by (simp add: id_in_def)
  have i2: "id_in (fst (setup_ui dual_boot ())) ''Ubuntu (GRUB0)'' = Some ''0''"
    using gm [unfolded g, rule_format, OF h5] h8 h9 su by (simp add: id_in_def)
  have i3: "distinct (map fst (rows_of (fst (setup_ui dual_boot ()))))"
    using dr [unfolded f] h3 su by (simp add: rows_of_def)
  show ?thesis
    using h0 h1 h2 h4 h5 h6 i1 i2 i3 by simp
qed

text \<open>
  C10 as the specification words it fails in two places. A listing that names \<^verbatim>\<open>Boot0001\<close>
  twice gives two rows with the same id and the same origin; and the saved entry \<^verbatim>\<open>0000\<close>
  of GRUB marks the entry \<^verbatim>\<open>Boot0000\<close> of the firmware as the default.
\<close>

theorem inventory_conflates_ids_counterexample:
  "fst (get_uefi_entries conflated ())
     = Inr [(''0000'', ''Windows Boot Manager''), (''0001'', ''ubuntu''), (''0001'', ''ubuntu'')]
   \<and> fst (get_grub_entries conflated ()) = Inr [''Ubuntu'']
   \<and> fst (get_default_entry conflated ()) = Inr (Some ''0000'')
   \<and> rows_of (fst (setup_ui conflated ()))
     = [(''Windows Boot Manager (Boot0000)'', True), (''ubuntu (Boot0001)'', False),
        (''ubuntu (Boot0001)'', False), (''Ubuntu (GRUB0)'', False)]
   \<and> \<not> distinct (map fst (rows_of (fst (setup_ui conflated ()))))"
  by code_simp

end
